theory Spec2Isabelle
  imports Main
begin

section \<open>JSON documents and the decoding rules of encoding/json\<close>

text \<open>
  The MCP client of picoclaw (package \<open>mcp\<close> and package \<open>transport\<close>) exchanges JSON
  documents with a child process. The embedding works on parsed documents: a \<open>json\<close>
  value is a JSON text that the scanner of \<open>encoding/json\<close> accepts. Number literals in integer syntax are \<open>JInt\<close>;
  a literal with a fraction or an exponent is \<open>JFloat m e\<close>, of value \<open>m * 10^e\<close>. An object keeps
  its members in the order of the text, duplicates included, because the decoder of Go's
  standard library visits them in that order.
\<close>

datatype json =
    JNull
  | JBool bool
  | JInt int
  | JFloat int int
  | JString string
  | JArray "json list"
  | JObject "(string \<times> json) list"

text \<open>
  A byte slice handed to \<open>json.Unmarshal\<close> (a line read from the child, or a
  \<open>json.RawMessage\<close>): no bytes at all, bytes that are not a JSON text, or a document.
\<close>

datatype raw = NoBytes | Malformed | Doc json

text \<open>Errors created inside the Go standard library; their messages are not modelled.\<close>

datatype lib_error =
    SyntaxError
  | UnmarshalTypeError
  | WriteError
  | ReadError
  | ExecError
  | PipeError

text \<open>
  The parts of the standard library whose results are taken as given: the decoder of
  \<open>encoding/base64\<close> (used for a \<open>[]byte\<close> field), the message of a library error, and
  the \<open>%v\<close> rendering by \<open>fmt\<close> of the generic value decoded from a document.
\<close>

record golib =
  b64decode :: "string \<Rightarrow> string option"
  errtext :: "lib_error \<Rightarrow> string"
  fmtv :: "json \<Rightarrow> string"

text \<open>
  Struct fields are matched against object keys exactly first and then by folded name.
  Folding maps a lower-case ASCII letter to its capital and a rune to the least rune of its
  case orbit. Every JSON tag of package \<open>mcp\<close> is ASCII, and the only runes outside ASCII
  whose orbit reaches ASCII are U+017F (long s, bytes C5 BF in UTF-8) and U+212A (Kelvin
  sign, bytes E2 84 AA), which fold to \<open>S\<close> and \<open>K\<close>. Keys are valid UTF-8, so any other
  byte above 127 can stay as it is: it never equals a byte of a folded tag.
\<close>

definition fold_char :: "char \<Rightarrow> char" where
  "fold_char c =
     (case map_of (zip ''abcdefghijklmnopqrstuvwxyz'' ''ABCDEFGHIJKLMNOPQRSTUVWXYZ'') c of
        Some u \<Rightarrow> u
      | None \<Rightarrow> c)"

fun foldName :: "string \<Rightarrow> string" where
  "foldName [] = []"
| "foldName (c # cs) =
     (if c = CHR 0xC5 \<and> take 1 cs = [CHR 0xBF] then CHR ''S'' # foldName (drop 1 cs)
      else if c = CHR 0xE2 \<and> take 2 cs = [CHR 0x84, CHR 0xAA] then
        CHR ''K'' # foldName (drop 2 cs)
      else fold_char c # foldName cs)"

declare foldName.simps [simp del]

definition findField :: "string list \<Rightarrow> string \<Rightarrow> string option" where
  "findField names key =
     (if key \<in> set names then Some key
      else find (\<lambda>n. foldName n = foldName key) names)"

text \<open>
  Decoding an object into a struct: the members are visited in order, a member whose key
  matches no field is skipped, and a member of the wrong JSON type makes the whole
  \<open>json.Unmarshal\<close> return an \<open>UnmarshalTypeError\<close>. A \<open>null\<close> in place of the
  object leaves the struct as it is; any other value is a type error.
\<close>

fun decodeFields ::
  "('a \<Rightarrow> string \<Rightarrow> json \<Rightarrow> lib_error + 'a) \<Rightarrow> string list \<Rightarrow> 'a \<Rightarrow> (string \<times> json) list
     \<Rightarrow> lib_error + 'a" where
  "decodeFields setf names acc [] = Inr acc"
| "decodeFields setf names acc ((k, v) # kvs) =
     (case findField names k of
        None \<Rightarrow> decodeFields setf names acc kvs
      | Some f \<Rightarrow>
          (case setf acc f v of
             Inl e \<Rightarrow> Inl e
           | Inr acc' \<Rightarrow> decodeFields setf names acc' kvs))"

fun intoStruct ::
  "('a \<Rightarrow> string \<Rightarrow> json \<Rightarrow> lib_error + 'a) \<Rightarrow> string list \<Rightarrow> 'a \<Rightarrow> json \<Rightarrow> lib_error + 'a" where
  "intoStruct setf names cur (JObject kvs) = decodeFields setf names cur kvs"
| "intoStruct setf names cur JNull = Inr cur"
| "intoStruct setf names cur _ = Inl UnmarshalTypeError"

definition unmarshalStruct ::
  "('a \<Rightarrow> string \<Rightarrow> json \<Rightarrow> lib_error + 'a) \<Rightarrow> string list \<Rightarrow> 'a \<Rightarrow> raw \<Rightarrow> lib_error + 'a" where
  "unmarshalStruct setf names zero r =
     (case r of
        NoBytes \<Rightarrow> Inl SyntaxError
      | Malformed \<Rightarrow> Inl SyntaxError
      | Doc j \<Rightarrow> intoStruct setf names zero j)"

text \<open>Storing a JSON value into a variable of a basic Go type; \<open>null\<close> leaves it as it is.\<close>

fun intoString :: "string \<Rightarrow> json \<Rightarrow> lib_error + string" where
  "intoString cur (JString s) = Inr s"
| "intoString cur JNull = Inr cur"
| "intoString cur _ = Inl UnmarshalTypeError"

fun intoBool :: "bool \<Rightarrow> json \<Rightarrow> lib_error + bool" where
  "intoBool cur (JBool b) = Inr b"
| "intoBool cur JNull = Inr cur"
| "intoBool cur _ = Inl UnmarshalTypeError"

definition inInt64 :: "int \<Rightarrow> bool" where
  "inInt64 n = (- (2 ^ 63) \<le> n \<and> n < 2 ^ 63)"

fun intoInt64 :: "int \<Rightarrow> json \<Rightarrow> lib_error + int" where
  "intoInt64 cur (JInt n) = (if inInt64 n then Inr n else Inl UnmarshalTypeError)"
| "intoInt64 cur JNull = Inr cur"
| "intoInt64 cur _ = Inl UnmarshalTypeError"

text \<open>
  A \<open>[]byte\<close> field takes a base64 string, or an array of numbers in the range of a byte
  (a \<open>null\<close> element leaves the byte at zero).
\<close>

fun intoByte :: "json \<Rightarrow> lib_error + char" where
  "intoByte (JInt n) = (if 0 \<le> n \<and> n < 256 then Inr (char_of n) else Inl UnmarshalTypeError)"
| "intoByte JNull = Inr (char_of (0::nat))"
| "intoByte _ = Inl UnmarshalTypeError"

fun intoByteList :: "json list \<Rightarrow> lib_error + string" where
  "intoByteList [] = Inr []"
| "intoByteList (j # js) =
     (case intoByte j of
        Inl e \<Rightarrow> Inl e
      | Inr b \<Rightarrow> (case intoByteList js of Inl e \<Rightarrow> Inl e | Inr bs \<Rightarrow> Inr (b # bs)))"

fun intoBytes :: "golib \<Rightarrow> string \<Rightarrow> json \<Rightarrow> lib_error + string" where
  "intoBytes L cur (JString s) =
     (case b64decode L s of None \<Rightarrow> Inl UnmarshalTypeError | Some bs \<Rightarrow> Inr bs)"
| "intoBytes L cur (JArray js) = intoByteList js"
| "intoBytes L cur JNull = Inr []"
| "intoBytes L cur _ = Inl UnmarshalTypeError"

text \<open>
  Decoding into an \<open>interface{}\<close> builds a generic value, in which every number is a
  \<open>float64\<close>. \<open>strconv.ParseFloat\<close> reports an error exactly when the literal rounds to
  infinity, that is when its magnitude reaches \<open>2^1024 - 2^970\<close>; the decoder then puts
  \<open>nil\<close> in the place of the number, goes on, and returns an \<open>UnmarshalTypeError\<close> at
  the end.
\<close>

definition float64Bound :: int where
  "float64Bound = 2 ^ 1024 - 2 ^ 970"

definition fitsFloat64 :: "int \<Rightarrow> int \<Rightarrow> bool" where
  "fitsFloat64 m e =
     (if 0 \<le> e then \<bar>m\<bar> * 10 ^ nat e < float64Bound
      else \<bar>m\<bar> < float64Bound * 10 ^ nat (- e))"

text \<open>The generic value built for a document, kept as a JSON value.\<close>

primrec toInterface :: "json \<Rightarrow> json" where
  "toInterface JNull = JNull"
| "toInterface (JBool b) = JBool b"
| "toInterface (JInt n) = (if fitsFloat64 n 0 then JInt n else JNull)"
| "toInterface (JFloat m e) = (if fitsFloat64 m e then JFloat m e else JNull)"
| "toInterface (JString s) = JString s"
| "toInterface (JArray items) = JArray (map toInterface items)"
| "toInterface (JObject kvs) = JObject (map (map_prod id toInterface) kvs)"

text \<open>The decoder returns no error exactly when no number had to be replaced.\<close>

definition fitsInterface :: "json \<Rightarrow> bool" where
  "fitsInterface j = (toInterface j = j)"

text \<open>A Go map decoded from an object: a later member with the same key wins.\<close>

definition mapIndex :: "(string \<times> json) list \<Rightarrow> string \<Rightarrow> json option" where
  "mapIndex kvs k = map_of (rev kvs) k"

section \<open>types.go: content blocks and tool call results\<close>

record TextContent =
  text_Type :: string
  text_Text :: string

record ImageContent =
  image_Type :: string
  image_Data :: string
  image_MimeType :: string

record ResourceContent =
  resource_URI :: string
  resource_MimeType :: string
  resource_Text :: string
  resource_Blob :: string

text \<open>
  An element of \<open>Content []interface{}\<close>: one of the three structs, or whatever generic value
  the decoder builds for an \<open>interface{}\<close> (\<open>nil\<close>, \<open>bool\<close>, \<open>float64\<close>, \<open>string\<close>, slice,
  map), which the model keeps as the JSON value it was built from.
\<close>

datatype content =
    CText TextContent
  | CImage ImageContent
  | CResource ResourceContent
  | CRaw json

record ToolCallResult =
  Content :: "content list"
  IsError :: bool

definition zeroToolCallResult :: ToolCallResult where
  "zeroToolCallResult = \<lparr>Content = [], IsError = False\<rparr>"

definition zeroTextContent :: TextContent where
  "zeroTextContent = \<lparr>text_Type = [], text_Text = []\<rparr>"

definition zeroImageContent :: ImageContent where
  "zeroImageContent = \<lparr>image_Type = [], image_Data = [], image_MimeType = []\<rparr>"

definition zeroResourceContent :: ResourceContent where
  "zeroResourceContent =
     \<lparr>resource_URI = [], resource_MimeType = [], resource_Text = [], resource_Blob = []\<rparr>"

definition setTextContent :: "TextContent \<Rightarrow> string \<Rightarrow> json \<Rightarrow> lib_error + TextContent" where
  "setTextContent t f v =
     (if f = ''type'' then map_sum id (\<lambda>s. t\<lparr>text_Type := s\<rparr>) (intoString (text_Type t) v)
      else map_sum id (\<lambda>s. t\<lparr>text_Text := s\<rparr>) (intoString (text_Text t) v))"

definition unmarshalTextContent :: "raw \<Rightarrow> lib_error + TextContent" where
  "unmarshalTextContent r =
     unmarshalStruct setTextContent [''type'', ''text''] zeroTextContent r"

definition setImageContent :: "ImageContent \<Rightarrow> string \<Rightarrow> json \<Rightarrow> lib_error + ImageContent" where
  "setImageContent t f v =
     (if f = ''type'' then map_sum id (\<lambda>s. t\<lparr>image_Type := s\<rparr>) (intoString (image_Type t) v)
      else if f = ''data'' then map_sum id (\<lambda>s. t\<lparr>image_Data := s\<rparr>) (intoString (image_Data t) v)
      else map_sum id (\<lambda>s. t\<lparr>image_MimeType := s\<rparr>) (intoString (image_MimeType t) v))"

definition unmarshalImageContent :: "raw \<Rightarrow> lib_error + ImageContent" where
  "unmarshalImageContent r =
     unmarshalStruct setImageContent [''type'', ''data'', ''mimeType''] zeroImageContent r"

definition setResourceContent ::
  "golib \<Rightarrow> ResourceContent \<Rightarrow> string \<Rightarrow> json \<Rightarrow> lib_error + ResourceContent" where
  "setResourceContent L t f v =
     (if f = ''uri'' then map_sum id (\<lambda>s. t\<lparr>resource_URI := s\<rparr>) (intoString (resource_URI t) v)
      else if f = ''mimeType'' then
        map_sum id (\<lambda>s. t\<lparr>resource_MimeType := s\<rparr>) (intoString (resource_MimeType t) v)
      else if f = ''text'' then
        map_sum id (\<lambda>s. t\<lparr>resource_Text := s\<rparr>) (intoString (resource_Text t) v)
      else map_sum id (\<lambda>s. t\<lparr>resource_Blob := s\<rparr>) (intoBytes L (resource_Blob t) v))"

definition unmarshalResourceContent :: "golib \<Rightarrow> raw \<Rightarrow> lib_error + ResourceContent" where
  "unmarshalResourceContent L r =
     unmarshalStruct (setResourceContent L) [''uri'', ''mimeType'', ''text'', ''blob'']
       zeroResourceContent r"

text \<open>The three top-level attempts of \<open>ToolCallResult.UnmarshalJSON\<close>.\<close>

definition unmarshalString :: "raw \<Rightarrow> lib_error + string" where
  "unmarshalString r =
     (case r of
        NoBytes \<Rightarrow> Inl SyntaxError
      | Malformed \<Rightarrow> Inl SyntaxError
      | Doc j \<Rightarrow> intoString [] j)"

definition unmarshalRawMessages :: "raw \<Rightarrow> lib_error + json list" where
  "unmarshalRawMessages r =
     (case r of
        NoBytes \<Rightarrow> Inl SyntaxError
      | Malformed \<Rightarrow> Inl SyntaxError
      | Doc (JArray items) \<Rightarrow> Inr items
      | Doc JNull \<Rightarrow> Inr []
      | Doc _ \<Rightarrow> Inl UnmarshalTypeError)"

record contentWrapper =
  wrapper_Content :: "content list"
  wrapper_IsError :: bool

text \<open>
  The \<open>content\<close> member fills a \<open>[]interface{}\<close>: every element is built as a generic
  value, and a number outside \<open>float64\<close> anywhere in it is an error of the whole
  \<open>json.Unmarshal\<close>.
\<close>

fun intoInterfaces :: "content list \<Rightarrow> json \<Rightarrow> lib_error + content list" where
  "intoInterfaces cur (JArray items) =
     (if list_all fitsInterface items then Inr (map CRaw items) else Inl UnmarshalTypeError)"
| "intoInterfaces cur JNull = Inr []"
| "intoInterfaces cur _ = Inl UnmarshalTypeError"

definition setContentWrapper ::
  "contentWrapper \<Rightarrow> string \<Rightarrow> json \<Rightarrow> lib_error + contentWrapper" where
  "setContentWrapper w f v =
     (if f = ''content'' then
        map_sum id (\<lambda>c. w\<lparr>wrapper_Content := c\<rparr>) (intoInterfaces (wrapper_Content w) v)
      else map_sum id (\<lambda>b. w\<lparr>wrapper_IsError := b\<rparr>) (intoBool (wrapper_IsError w) v))"

definition unmarshalContentWrapper :: "raw \<Rightarrow> lib_error + contentWrapper" where
  "unmarshalContentWrapper r =
     unmarshalStruct setContentWrapper [''content'', ''isError'']
       \<lparr>wrapper_Content = [], wrapper_IsError = False\<rparr> r"

text \<open>
  The body of the loop over the items of an array response: three attempts, each ending
  the iteration when it succeeds, and the fallback to the generic value (the error of
  this last \<open>json.Unmarshal\<close> is dropped).
\<close>

definition tryText :: "json \<Rightarrow> content option" where
  "tryText item =
     (case unmarshalTextContent (Doc item) of
        Inr txt \<Rightarrow> if text_Type txt = ''text'' then Some (CText txt) else None
      | Inl _ \<Rightarrow> None)"

definition tryImage :: "json \<Rightarrow> content option" where
  "tryImage item =
     (case unmarshalImageContent (Doc item) of
        Inr img \<Rightarrow> if image_Type img = ''image'' then Some (CImage img) else None
      | Inl _ \<Rightarrow> None)"

definition tryResource :: "golib \<Rightarrow> json \<Rightarrow> content option" where
  "tryResource L item =
     (case unmarshalResourceContent L (Doc item) of
        Inr res \<Rightarrow> if resource_URI res \<noteq> [] then Some (CResource res) else None
      | Inl _ \<Rightarrow> None)"

definition decodeItem :: "golib \<Rightarrow> json \<Rightarrow> content" where
  "decodeItem L item =
     (case tryText item of
        Some c \<Rightarrow> c
      | None \<Rightarrow>
          (case tryImage item of
             Some c \<Rightarrow> c
           | None \<Rightarrow>
               (case tryResource L item of
                  Some c \<Rightarrow> c
                | None \<Rightarrow> CRaw (toInterface item))))"

text \<open>
  \<open>ToolCallResult.UnmarshalJSON\<close>, with the receiver passed in and returned: the array
  branch appends to the content the receiver already has. The second component is the
  returned \<open>error\<close>, \<open>None\<close> for \<open>nil\<close>.
\<close>

definition ToolCallResult_UnmarshalJSON ::
  "golib \<Rightarrow> ToolCallResult \<Rightarrow> raw \<Rightarrow> ToolCallResult \<times> lib_error option" where
  "ToolCallResult_UnmarshalJSON L t data =
     (case unmarshalString data of
        Inr str \<Rightarrow> (t\<lparr>Content := [CText \<lparr>text_Type = ''text'', text_Text = str\<rparr>]\<rparr>, None)
      | Inl _ \<Rightarrow>
          (case unmarshalRawMessages data of
             Inr arr \<Rightarrow> (t\<lparr>Content := Content t @ map (decodeItem L) arr\<rparr>, None)
           | Inl _ \<Rightarrow>
               (case unmarshalContentWrapper data of
                  Inr wrapper \<Rightarrow>
                    (t\<lparr>Content := wrapper_Content wrapper, IsError := wrapper_IsError wrapper\<rparr>,
                     None)
                | Inl _ \<Rightarrow> (t, None))))"

text \<open>\<open>ToolCallResult.GetText\<close>: the two \<open>if\<close> statements of the loop body.\<close>

fun contentText :: "content \<Rightarrow> string" where
  "contentText (CText txt) = text_Text txt"
| "contentText (CRaw (JObject kvs)) =
     (case mapIndex kvs ''type'' of
        Some (JString typ) \<Rightarrow>
          if typ = ''text'' then
            (case mapIndex kvs ''text'' of Some (JString txt) \<Rightarrow> txt | _ \<Rightarrow> [])
          else []
      | _ \<Rightarrow> [])"
| "contentText _ = []"

definition GetText :: "ToolCallResult \<Rightarrow> string" where
  "GetText t = concat (map contentText (Content t))"

text \<open>
  \<open>json.Unmarshal(data, &result)\<close> for a \<open>ToolCallResult\<close>: the library checks the syntax
  of \<open>data\<close> and then calls the method above on every document, \<open>null\<close> included.
\<close>

definition unmarshalToolCallResult :: "golib \<Rightarrow> raw \<Rightarrow> lib_error + ToolCallResult" where
  "unmarshalToolCallResult L data =
     (case data of
        NoBytes \<Rightarrow> Inl SyntaxError
      | Malformed \<Rightarrow> Inl SyntaxError
      | Doc j \<Rightarrow>
          (case ToolCallResult_UnmarshalJSON L zeroToolCallResult (Doc j) of
             (t, None) \<Rightarrow> Inr t
           | (t, Some e) \<Rightarrow> Inl e))"

section \<open>protocol.go: responses and their errors\<close>

record RPCError =
  rpc_Code :: int
  rpc_Message :: string
  rpc_Data :: raw

record JSONRPCResponse =
  resp_JSONRPC :: string
  resp_ID :: int
  resp_Result :: raw
  resp_Error :: "RPCError option"

definition zeroRPCError :: RPCError where
  "zeroRPCError = \<lparr>rpc_Code = 0, rpc_Message = [], rpc_Data = NoBytes\<rparr>"

definition zeroJSONRPCResponse :: JSONRPCResponse where
  "zeroJSONRPCResponse =
     \<lparr>resp_JSONRPC = [], resp_ID = 0, resp_Result = NoBytes, resp_Error = None\<rparr>"

text \<open>
  A \<open>json.RawMessage\<close> field keeps the bytes of whatever value the member has, \<open>null\<close>
  included. \<open>Code\<close> is a Go \<open>int\<close>, taken to be 64 bits wide.
\<close>

definition setRPCError :: "RPCError \<Rightarrow> string \<Rightarrow> json \<Rightarrow> lib_error + RPCError" where
  "setRPCError e f v =
     (if f = ''code'' then map_sum id (\<lambda>n. e\<lparr>rpc_Code := n\<rparr>) (intoInt64 (rpc_Code e) v)
      else if f = ''message'' then
        map_sum id (\<lambda>s. e\<lparr>rpc_Message := s\<rparr>) (intoString (rpc_Message e) v)
      else Inr (e\<lparr>rpc_Data := Doc v\<rparr>))"

text \<open>
  The \<open>error\<close> member fills a \<open>*RPCError\<close>: \<open>null\<close> sets the pointer to \<open>nil\<close>, an object
  is decoded into the struct the pointer has (a new one when it is \<open>nil\<close>).
\<close>

fun intoRPCErrorPtr :: "RPCError option \<Rightarrow> json \<Rightarrow> lib_error + RPCError option" where
  "intoRPCErrorPtr cur JNull = Inr None"
| "intoRPCErrorPtr cur (JObject kvs) =
     map_sum id Some
       (decodeFields setRPCError [''code'', ''message'', ''data'']
          (case cur of None \<Rightarrow> zeroRPCError | Some e \<Rightarrow> e) kvs)"
| "intoRPCErrorPtr cur _ = Inl UnmarshalTypeError"

definition setJSONRPCResponse ::
  "JSONRPCResponse \<Rightarrow> string \<Rightarrow> json \<Rightarrow> lib_error + JSONRPCResponse" where
  "setJSONRPCResponse r f v =
     (if f = ''jsonrpc'' then
        map_sum id (\<lambda>s. r\<lparr>resp_JSONRPC := s\<rparr>) (intoString (resp_JSONRPC r) v)
      else if f = ''id'' then map_sum id (\<lambda>n. r\<lparr>resp_ID := n\<rparr>) (intoInt64 (resp_ID r) v)
      else if f = ''result'' then Inr (r\<lparr>resp_Result := Doc v\<rparr>)
      else map_sum id (\<lambda>e. r\<lparr>resp_Error := e\<rparr>) (intoRPCErrorPtr (resp_Error r) v))"

text \<open>
  \<open>JSONRPCResponse.UnmarshalJSON\<close>: \<open>json.Unmarshal\<close> on an alias of the receiver, which has
  the same fields and no methods. Nothing else is checked.
\<close>

definition JSONRPCResponse_UnmarshalJSON ::
  "JSONRPCResponse \<Rightarrow> raw \<Rightarrow> lib_error + JSONRPCResponse" where
  "JSONRPCResponse_UnmarshalJSON r data =
     unmarshalStruct setJSONRPCResponse [''jsonrpc'', ''id'', ''result'', ''error''] r data"

definition IsError_resp :: "JSONRPCResponse \<Rightarrow> bool" where
  "IsError_resp r = (resp_Error r \<noteq> None)"

text \<open>
  \<open>JSONRPCResponse.GetError\<close>: the message of the returned error, \<open>None\<close> for \<open>nil\<close>.
  \<open>len(r.Error.Data) > 0\<close> holds unless the field has no bytes; the data is appended
  when its \<open>json.Unmarshal\<close> into an \<open>interface{}\<close> returns no error.
\<close>

definition GetError :: "golib \<Rightarrow> JSONRPCResponse \<Rightarrow> string option" where
  "GetError L r =
     (case resp_Error r of
        None \<Rightarrow> None
      | Some e \<Rightarrow>
          Some (case rpc_Data e of
                  Doc data \<Rightarrow>
                    if fitsInterface data then rpc_Message e @ '': '' @ fmtv L data
                    else rpc_Message e
                | _ \<Rightarrow> rpc_Message e))"

definition MethodInitialize :: string where "MethodInitialize = ''initialize''"
definition MethodInitialized :: string where "MethodInitialized = ''notifications/initialized''"
definition MethodShutdown :: string where "MethodShutdown = ''shutdown''"
definition MethodListTools :: string where "MethodListTools = ''tools/list''"
definition MethodCallTool :: string where "MethodCallTool = ''tools/call''"

section \<open>types.go: servers, tools and handshake results\<close>

text \<open>A Go slice that may be \<open>nil\<close> is an option where the difference matters (\<open>Env\<close>).\<close>

record MCPServer =
  server_Name :: string
  server_Command :: string
  server_Args :: "string list"
  server_Env :: "string list option"
  server_Enabled :: bool

record MCPTool =
  tool_Name :: string
  tool_Description :: string
  tool_InputSchema :: "(string \<times> json) list"

record ServerCapabilities =
  caps_Tools_ListChanged :: bool
  caps_Resources_Subscribe :: bool
  caps_Resources_ListChanged :: bool
  caps_Prompts_ListChanged :: bool

record ServerInfo =
  info_Name :: string
  info_Version :: string

record InitializeResult =
  init_ProtocolVersion :: string
  init_ServerInfo :: ServerInfo
  init_Capabilities :: ServerCapabilities

text \<open>
  \<open>list_ToolsSpare\<close> holds the elements of the backing array of \<open>Tools\<close> beyond its
  length. They are invisible to the program, but the decoder decodes into them when a
  repeated \<open>tools\<close> member makes the slice longer again.
\<close>

record ListToolsResult =
  list_Tools :: "MCPTool list"
  list_ToolsSpare :: "MCPTool list"
  list_NextCursor :: "string option"

definition zeroServerCapabilities :: ServerCapabilities where
  "zeroServerCapabilities =
     \<lparr>caps_Tools_ListChanged = False, caps_Resources_Subscribe = False,
      caps_Resources_ListChanged = False, caps_Prompts_ListChanged = False\<rparr>"

definition zeroInitializeResult :: InitializeResult where
  "zeroInitializeResult =
     \<lparr>init_ProtocolVersion = [], init_ServerInfo = \<lparr>info_Name = [], info_Version = []\<rparr>,
      init_Capabilities = zeroServerCapabilities\<rparr>"

definition zeroMCPTool :: MCPTool where
  "zeroMCPTool = \<lparr>tool_Name = [], tool_Description = [], tool_InputSchema = []\<rparr>"

definition setServerInfo :: "ServerInfo \<Rightarrow> string \<Rightarrow> json \<Rightarrow> lib_error + ServerInfo" where
  "setServerInfo i f v =
     (if f = ''name'' then map_sum id (\<lambda>s. i\<lparr>info_Name := s\<rparr>) (intoString (info_Name i) v)
      else map_sum id (\<lambda>s. i\<lparr>info_Version := s\<rparr>) (intoString (info_Version i) v))"

text \<open>The three anonymous structs of \<open>ServerCapabilities\<close>, each decoded in place.\<close>

definition setCapsTools :: "ServerCapabilities \<Rightarrow> string \<Rightarrow> json \<Rightarrow> lib_error + ServerCapabilities" where
  "setCapsTools c f v =
     map_sum id (\<lambda>b. c\<lparr>caps_Tools_ListChanged := b\<rparr>) (intoBool (caps_Tools_ListChanged c) v)"

definition setCapsResources ::
  "ServerCapabilities \<Rightarrow> string \<Rightarrow> json \<Rightarrow> lib_error + ServerCapabilities" where
  "setCapsResources c f v =
     (if f = ''subscribe'' then
        map_sum id (\<lambda>b. c\<lparr>caps_Resources_Subscribe := b\<rparr>) (intoBool (caps_Resources_Subscribe c) v)
      else
        map_sum id (\<lambda>b. c\<lparr>caps_Resources_ListChanged := b\<rparr>)
          (intoBool (caps_Resources_ListChanged c) v))"

definition setCapsPrompts ::
  "ServerCapabilities \<Rightarrow> string \<Rightarrow> json \<Rightarrow> lib_error + ServerCapabilities" where
  "setCapsPrompts c f v =
     map_sum id (\<lambda>b. c\<lparr>caps_Prompts_ListChanged := b\<rparr>) (intoBool (caps_Prompts_ListChanged c) v)"

definition setServerCapabilities ::
  "ServerCapabilities \<Rightarrow> string \<Rightarrow> json \<Rightarrow> lib_error + ServerCapabilities" where
  "setServerCapabilities c f v =
     (if f = ''tools'' then intoStruct setCapsTools [''listChanged''] c v
      else if f = ''resources'' then intoStruct setCapsResources [''subscribe'', ''listChanged''] c v
      else intoStruct setCapsPrompts [''listChanged''] c v)"

definition setInitializeResult ::
  "InitializeResult \<Rightarrow> string \<Rightarrow> json \<Rightarrow> lib_error + InitializeResult" where
  "setInitializeResult r f v =
     (if f = ''protocolVersion'' then
        map_sum id (\<lambda>s. r\<lparr>init_ProtocolVersion := s\<rparr>) (intoString (init_ProtocolVersion r) v)
      else if f = ''serverInfo'' then
        map_sum id (\<lambda>i. r\<lparr>init_ServerInfo := i\<rparr>)
          (intoStruct setServerInfo [''name'', ''version''] (init_ServerInfo r) v)
      else
        map_sum id (\<lambda>c. r\<lparr>init_Capabilities := c\<rparr>)
          (intoStruct setServerCapabilities [''tools'', ''resources'', ''prompts'']
             (init_Capabilities r) v))"

definition unmarshalInitializeResult :: "raw \<Rightarrow> lib_error + InitializeResult" where
  "unmarshalInitializeResult r =
     unmarshalStruct setInitializeResult [''protocolVersion'', ''serverInfo'', ''capabilities'']
       zeroInitializeResult r"

text \<open>
  \<open>InputSchema\<close> is a \<open>map[string]interface{}\<close>: an object is added to the map the field
  has, its values built as generic values.
\<close>

fun intoSchema :: "(string \<times> json) list \<Rightarrow> json \<Rightarrow> lib_error + (string \<times> json) list" where
  "intoSchema cur (JObject kvs) =
     (if list_all (\<lambda>kv. fitsInterface (snd kv)) kvs then Inr (cur @ kvs)
      else Inl UnmarshalTypeError)"
| "intoSchema cur JNull = Inr []"
| "intoSchema cur _ = Inl UnmarshalTypeError"

definition setMCPTool :: "MCPTool \<Rightarrow> string \<Rightarrow> json \<Rightarrow> lib_error + MCPTool" where
  "setMCPTool t f v =
     (if f = ''name'' then map_sum id (\<lambda>s. t\<lparr>tool_Name := s\<rparr>) (intoString (tool_Name t) v)
      else if f = ''description'' then
        map_sum id (\<lambda>s. t\<lparr>tool_Description := s\<rparr>) (intoString (tool_Description t) v)
      else map_sum id (\<lambda>m. t\<lparr>tool_InputSchema := m\<rparr>) (intoSchema (tool_InputSchema t) v))"

text \<open>
  An array decoded into \<open>[]MCPTool\<close>: element \<open>i\<close> is decoded into the element the
  backing array has at \<open>i\<close>, and into a zero value beyond it. Afterwards the slice has
  the length of the array, and what the backing array held beyond that stays there. An
  empty array and \<open>null\<close> give a slice without backing array.
\<close>

fun intoTools :: "MCPTool list \<Rightarrow> json list \<Rightarrow> lib_error + MCPTool list" where
  "intoTools backing [] = Inr []"
| "intoTools backing (j # js) =
     (case intoStruct setMCPTool [''name'', ''description'', ''inputSchema'']
             (case backing of [] \<Rightarrow> zeroMCPTool | c # _ \<Rightarrow> c) j of
        Inl e \<Rightarrow> Inl e
      | Inr t \<Rightarrow>
          (case intoTools (tl backing) js of
             Inl e \<Rightarrow> Inl e
           | Inr ts \<Rightarrow> Inr (t # ts)))"

fun intoToolSlice ::
  "MCPTool list \<times> MCPTool list \<Rightarrow> json \<Rightarrow> lib_error + MCPTool list \<times> MCPTool list" where
  "intoToolSlice (cur, spare) (JArray items) =
     (if items = [] then Inr ([], [])
      else
        (case intoTools (cur @ spare) items of
           Inl e \<Rightarrow> Inl e
         | Inr ts \<Rightarrow> Inr (ts, drop (length items) (cur @ spare))))"
| "intoToolSlice (cur, spare) JNull = Inr ([], [])"
| "intoToolSlice (cur, spare) _ = Inl UnmarshalTypeError"

fun intoStringPtr :: "string option \<Rightarrow> json \<Rightarrow> lib_error + string option" where
  "intoStringPtr cur (JString s) = Inr (Some s)"
| "intoStringPtr cur JNull = Inr None"
| "intoStringPtr cur _ = Inl UnmarshalTypeError"

definition setListToolsResult ::
  "ListToolsResult \<Rightarrow> string \<Rightarrow> json \<Rightarrow> lib_error + ListToolsResult" where
  "setListToolsResult r f v =
     (if f = ''tools'' then
        map_sum id (\<lambda>ts. r\<lparr>list_Tools := fst ts, list_ToolsSpare := snd ts\<rparr>)
          (intoToolSlice (list_Tools r, list_ToolsSpare r) v)
      else map_sum id (\<lambda>c. r\<lparr>list_NextCursor := c\<rparr>) (intoStringPtr (list_NextCursor r) v))"

definition unmarshalListToolsResult :: "raw \<Rightarrow> lib_error + ListToolsResult" where
  "unmarshalListToolsResult r =
     unmarshalStruct setListToolsResult [''tools'', ''nextCursor'']
       \<lparr>list_Tools = [], list_ToolsSpare = [], list_NextCursor = None\<rparr> r"

section \<open>Errors\<close>

text \<open>
  An \<open>error\<close> value of the client: \<open>Errorf m\<close> is \<open>fmt.Errorf(m)\<close> with the arguments
  already formatted, \<open>Wrapf p e\<close> is \<open>fmt.Errorf(p + ": %w", e)\<close>, and \<open>LibErr\<close> is an
  error returned by the standard library.
\<close>

datatype error =
    Errorf string
  | Wrapf string error
  | LibErr lib_error

fun errorString :: "golib \<Rightarrow> error \<Rightarrow> string" where
  "errorString L (Errorf m) = m"
| "errorString L (Wrapf p e) = p @ '': '' @ errorString L e"
| "errorString L (LibErr e) = errtext L e"

section \<open>transport/stdio.go: the framed transport\<close>

text \<open>
  The request maps built by the client. A request has an \<open>id\<close> member; the
  \<open>notifications/initialized\<close> map has none.
\<close>

datatype params =
    InitializeParams string string string
  | ListToolsParams
  | CallToolParams string "(string \<times> json) list"

record message =
  msg_id :: "int option"
  msg_method :: string
  msg_params :: "params option"

text \<open>What the transport does to the child process, in order.\<close>

datatype event =
    ProcessStarted "string list"
  | Written message
  | NewlineWritten
  | StdinClosed
  | ProcessWaited

text \<open>
  The transport: the fields of \<open>exec.Cmd\<close> that are set, whether \<open>cmd.Process\<close> is
  non-nil, the \<open>closed\<close> flag, and the trace of its effects. Every blocking call (a write,
  the read of a line, the wait for the child) is taken to return; what it returns is an
  outcome chosen by the environment and passed to the operation.
\<close>

record STDIOTransport =
  cmd_Path :: string
  cmd_Args :: "string list"
  cmd_Env :: "string list option"
  cmd_Process :: bool
  closed :: bool
  trace :: "event list"

datatype pipe_outcome = PipesCreated | StdinPipeFails | StdoutPipeFails | StderrPipeFails

datatype send_outcome = SendOk | WriteFails | NewlineFails

datatype recv_outcome = RecvLine raw | RecvEOF | RecvFails

definition NewSTDIOTransport ::
  "string \<Rightarrow> string list \<Rightarrow> string list option \<Rightarrow> pipe_outcome \<Rightarrow> error + STDIOTransport" where
  "NewSTDIOTransport command args env pipes =
     (case pipes of
        StdinPipeFails \<Rightarrow> Inl (Wrapf ''failed to create stdin pipe'' (LibErr PipeError))
      | StdoutPipeFails \<Rightarrow> Inl (Wrapf ''failed to create stdout pipe'' (LibErr PipeError))
      | StderrPipeFails \<Rightarrow> Inl (Wrapf ''failed to create stderr pipe'' (LibErr PipeError))
      | PipesCreated \<Rightarrow>
          Inr \<lparr>cmd_Path = command, cmd_Args = args, cmd_Env = env, cmd_Process = False,
               closed = False, trace = []\<rparr>)"

text \<open>
  The environment \<open>os/exec\<close> gives the child on a Unix system: the list in \<open>cmd.Env\<close>,
  or the environment of the current process when \<open>cmd.Env\<close> is \<open>nil\<close>, without its
  duplicates. The key of an entry ends before its first \<open>=\<close> (before the second one when
  the entry starts with \<open>=\<close>); of the entries with one key the last is kept; an entry
  without \<open>=\<close> is kept unless it is empty. An entry with a NUL byte makes \<open>cmd.Start\<close>
  fail.
\<close>

definition hasNUL :: "string \<Rightarrow> bool" where
  "hasNUL kv = (CHR 0x00 \<in> set kv)"

fun envKey :: "string \<Rightarrow> string option" where
  "envKey [] = None"
| "envKey (c # cs) =
     (if c = CHR ''='' then
        (if CHR ''='' \<in> set cs then Some (c # takeWhile (\<lambda>x. x \<noteq> CHR ''='') cs) else Some [])
      else if CHR ''='' \<in> set cs then Some (takeWhile (\<lambda>x. x \<noteq> CHR ''='') (c # cs))
      else None)"

text \<open>The loop of \<open>dedupEnv\<close>, which runs from the last entry to the first.\<close>

fun dedupLast :: "string list \<Rightarrow> string list \<Rightarrow> string list" where
  "dedupLast [] saw = []"
| "dedupLast (kv # rest) saw =
     (case envKey kv of
        None \<Rightarrow> (if kv \<noteq> [] then kv # dedupLast rest saw else dedupLast rest saw)
      | Some k \<Rightarrow>
          (if k \<in> set saw then dedupLast rest saw else kv # dedupLast rest (k # saw)))"

definition dedupEnv :: "string list \<Rightarrow> string list" where
  "dedupEnv env = rev (dedupLast (rev env) [])"

definition childEnviron :: "string list \<Rightarrow> string list option \<Rightarrow> string list" where
  "childEnviron parent env = dedupEnv (case env of None \<Rightarrow> parent | Some e \<Rightarrow> e)"

text \<open>
  \<open>STDIOTransport.Start\<close>; \<open>parent\<close> is the environment of the current process and
  \<open>spawn\<close> tells whether the operating system starts the command. \<open>cmd.Start\<close> fails
  on a command that was started before, and on a NUL byte in the environment.
\<close>

definition Start_transport ::
  "STDIOTransport \<Rightarrow> string list \<Rightarrow> bool \<Rightarrow> STDIOTransport \<times> error option" where
  "Start_transport t parent spawn =
     (if closed t then (t, Some (Errorf ''transport is closed''))
      else if cmd_Process t \<or> \<not> spawn \<or>
              list_ex hasNUL (case cmd_Env t of None \<Rightarrow> parent | Some e \<Rightarrow> e) then
        (t, Some (Wrapf ''failed to start MCP server'' (LibErr ExecError)))
      else
        (t\<lparr>cmd_Process := True,
           trace := trace t @ [ProcessStarted (childEnviron parent (cmd_Env t))]\<rparr>, None))"

text \<open>
  \<open>STDIOTransport.Send\<close>. The messages are built from strings, integers and decoded JSON
  values, which \<open>json.Marshal\<close> always encodes, so the marshalling error does not arise.
\<close>

definition Send :: "STDIOTransport \<Rightarrow> message \<Rightarrow> send_outcome \<Rightarrow> STDIOTransport \<times> error option" where
  "Send t req out =
     (if closed t then (t, Some (Errorf ''transport is closed''))
      else
        (case out of
           WriteFails \<Rightarrow> (t, Some (Wrapf ''failed to write to stdin'' (LibErr WriteError)))
         | NewlineFails \<Rightarrow>
             (t\<lparr>trace := trace t @ [Written req]\<rparr>,
              Some (Wrapf ''failed to write newline'' (LibErr WriteError)))
         | SendOk \<Rightarrow> (t\<lparr>trace := trace t @ [Written req, NewlineWritten]\<rparr>, None)))"

definition Receive :: "STDIOTransport \<Rightarrow> recv_outcome \<Rightarrow> error + JSONRPCResponse" where
  "Receive t inp =
     (if closed t then Inl (Errorf ''transport is closed'')
      else
        (case inp of
           RecvEOF \<Rightarrow> Inl (Errorf ''MCP server closed connection'')
         | RecvFails \<Rightarrow> Inl (Wrapf ''failed to read from stdout'' (LibErr ReadError))
         | RecvLine line \<Rightarrow>
             (case JSONRPCResponse_UnmarshalJSON zeroJSONRPCResponse line of
                Inl e \<Rightarrow> Inl (Wrapf ''failed to unmarshal response'' (LibErr e))
              | Inr resp \<Rightarrow> Inr resp)))"

text \<open>
  \<open>STDIOTransport.Close\<close>: errors of closing stdin and of the wait are logged only, the
  returned error is always \<open>nil\<close>.
\<close>

definition Close_transport :: "STDIOTransport \<Rightarrow> STDIOTransport \<times> error option" where
  "Close_transport t =
     (if closed t then (t, None)
      else if cmd_Process t then
        (t\<lparr>closed := True, trace := trace t @ [StdinClosed, ProcessWaited]\<rparr>, None)
      else (t\<lparr>closed := True, trace := trace t @ [StdinClosed]\<rparr>, None))"

definition IsClosed :: "STDIOTransport \<Rightarrow> bool" where
  "IsClosed t = closed t"

section \<open>The session client\<close>

text \<open>\<open>requestID\<close> is an \<open>int64\<close>; \<open>c.requestID++\<close> wraps around.\<close>

definition wrap64 :: "int \<Rightarrow> int" where
  "wrap64 n = (n + 2 ^ 63) mod 2 ^ 64 - 2 ^ 63"

record Client =
  server :: MCPServer
  transport :: STDIOTransport
  requestID :: int
  capabilities :: ServerCapabilities
  tools :: "MCPTool list"
  initialized :: bool

definition NewClient :: "MCPServer \<Rightarrow> pipe_outcome \<Rightarrow> error + Client" where
  "NewClient srv pipes =
     (case NewSTDIOTransport (server_Command srv) (server_Args srv) (server_Env srv) pipes of
        Inl err \<Rightarrow> Inl (Wrapf ''failed to create STDIO transport'' err)
      | Inr stdioTransport \<Rightarrow>
          Inr \<lparr>server = srv, transport = stdioTransport, requestID = 0,
               capabilities = zeroServerCapabilities, tools = [], initialized = False\<rparr>)"

definition Connect :: "Client \<Rightarrow> string list \<Rightarrow> bool \<Rightarrow> Client \<times> error option" where
  "Connect c parent spawn =
     (case Start_transport (transport c) parent spawn of
        (t, Some err) \<Rightarrow> (c\<lparr>transport := t\<rparr>, Some (Wrapf ''failed to start transport'' err))
      | (t, None) \<Rightarrow> (c\<lparr>transport := t\<rparr>, None))"

definition initializeRequest :: "int \<Rightarrow> message" where
  "initializeRequest n =
     \<lparr>msg_id = Some n, msg_method = MethodInitialize,
      msg_params = Some (InitializeParams ''2024-11-05'' ''picoclaw'' ''0.1.0'')\<rparr>"

definition initializedNotification :: message where
  "initializedNotification =
     \<lparr>msg_id = None, msg_method = MethodInitialized, msg_params = None\<rparr>"

text \<open>
  \<open>Client.Initialize\<close>, given the outcomes of the send of the request, of the receive, and
  of the send of the notification (whose error is logged only).
\<close>

definition Initialize ::
  "Client \<Rightarrow> send_outcome \<times> recv_outcome \<times> send_outcome \<Rightarrow> Client \<times> error option" where
  "Initialize c io =
     (case io of (s1, r, s2) \<Rightarrow>
        let c1 = c\<lparr>requestID := wrap64 (requestID c + 1)\<rparr> in
        (case Send (transport c1) (initializeRequest (requestID c1)) s1 of
           (t1, Some err) \<Rightarrow> (c1\<lparr>transport := t1\<rparr>, Some (Wrapf ''failed to send initialize'' err))
         | (t1, None) \<Rightarrow>
             (case Receive t1 r of
                Inl err \<Rightarrow>
                  (c1\<lparr>transport := t1\<rparr>,
                   Some (Wrapf ''failed to receive initialize response'' err))
              | Inr resp \<Rightarrow>
                  (case resp_Error resp of
                     Some e \<Rightarrow>
                       (c1\<lparr>transport := t1\<rparr>,
                        Some (Errorf (''initialize error: '' @ rpc_Message e)))
                   | None \<Rightarrow>
                       (case unmarshalInitializeResult (resp_Result resp) of
                          Inl err \<Rightarrow>
                            (c1\<lparr>transport := t1\<rparr>,
                             Some (Wrapf ''failed to unmarshal initialize result'' (LibErr err)))
                        | Inr result \<Rightarrow>
                            (c1\<lparr>transport := fst (Send t1 initializedNotification s2),
                                capabilities := init_Capabilities result,
                                initialized := True\<rparr>, None))))))"

definition listToolsRequest :: "int \<Rightarrow> message" where
  "listToolsRequest n =
     \<lparr>msg_id = Some n, msg_method = MethodListTools, msg_params = Some ListToolsParams\<rparr>"

definition ListTools ::
  "Client \<Rightarrow> send_outcome \<times> recv_outcome \<Rightarrow> Client \<times> (error + MCPTool list)" where
  "ListTools c io =
     (case io of (s, r) \<Rightarrow>
        if \<not> initialized c then (c, Inl (Errorf ''client not initialized''))
        else
          let c1 = c\<lparr>requestID := wrap64 (requestID c + 1)\<rparr> in
          (case Send (transport c1) (listToolsRequest (requestID c1)) s of
             (t1, Some err) \<Rightarrow> (c1\<lparr>transport := t1\<rparr>, Inl (Wrapf ''failed to send list_tools'' err))
           | (t1, None) \<Rightarrow>
               (case Receive t1 r of
                  Inl err \<Rightarrow>
                    (c1\<lparr>transport := t1\<rparr>,
                     Inl (Wrapf ''failed to receive list_tools response'' err))
                | Inr resp \<Rightarrow>
                    (case resp_Error resp of
                       Some e \<Rightarrow>
                         (c1\<lparr>transport := t1\<rparr>,
                          Inl (Errorf (''list_tools error: '' @ rpc_Message e)))
                     | None \<Rightarrow>
                         (case unmarshalListToolsResult (resp_Result resp) of
                            Inl err \<Rightarrow>
                              (c1\<lparr>transport := t1\<rparr>,
                               Inl (Wrapf ''failed to unmarshal list_tools result'' (LibErr err)))
                          | Inr result \<Rightarrow>
                              (c1\<lparr>transport := t1, tools := list_Tools result\<rparr>,
                               Inr (list_Tools result)))))))"

definition callToolRequest :: "int \<Rightarrow> string \<Rightarrow> (string \<times> json) list \<Rightarrow> message" where
  "callToolRequest n name args =
     \<lparr>msg_id = Some n, msg_method = MethodCallTool,
      msg_params = Some (CallToolParams name args)\<rparr>"

definition CallTool ::
  "golib \<Rightarrow> Client \<Rightarrow> string \<Rightarrow> (string \<times> json) list \<Rightarrow> send_outcome \<times> recv_outcome
     \<Rightarrow> Client \<times> (error + string)" where
  "CallTool L c name args io =
     (case io of (s, r) \<Rightarrow>
        if \<not> initialized c then (c, Inl (Errorf ''client not initialized''))
        else
          let c1 = c\<lparr>requestID := wrap64 (requestID c + 1)\<rparr> in
          (case Send (transport c1) (callToolRequest (requestID c1) name args) s of
             (t1, Some err) \<Rightarrow> (c1\<lparr>transport := t1\<rparr>, Inl (Wrapf ''failed to send tools/call'' err))
           | (t1, None) \<Rightarrow>
               (case Receive t1 r of
                  Inl err \<Rightarrow>
                    (c1\<lparr>transport := t1\<rparr>,
                     Inl (Wrapf ''failed to receive tools/call response'' err))
                | Inr resp \<Rightarrow>
                    (case resp_Error resp of
                       Some e \<Rightarrow>
                         (c1\<lparr>transport := t1\<rparr>,
                          Inl (Errorf (''tools/call error: '' @ rpc_Message e)))
                     | None \<Rightarrow>
                         (case unmarshalToolCallResult L (resp_Result resp) of
                            Inl err \<Rightarrow>
                              (c1\<lparr>transport := t1\<rparr>,
                               Inl (Wrapf ''failed to unmarshal tools/call result'' (LibErr err)))
                          | Inr result \<Rightarrow> (c1\<lparr>transport := t1\<rparr>, Inr (GetText result)))))))"



definition IsInitialized :: "Client \<Rightarrow> bool" where
  "IsInitialized c = (requestID c > 0)"

definition Close :: "Client \<Rightarrow> Client \<times> error option" where
  "Close c =
     (case Close_transport (transport c) of
        (t, err) \<Rightarrow> (c\<lparr>initialized := False, transport := t\<rparr>, err))"

definition shutdownRequest :: "int \<Rightarrow> message" where
  "shutdownRequest n = \<lparr>msg_id = Some n, msg_method = MethodShutdown, msg_params = None\<rparr>"

definition Shutdown :: "Client \<Rightarrow> send_outcome \<Rightarrow> Client \<times> error option" where
  "Shutdown c s =
     (if \<not> initialized c then (c, None)
      else
        let c1 = c\<lparr>requestID := wrap64 (requestID c + 1)\<rparr> in
        (case Close_transport (fst (Send (transport c1) (shutdownRequest (requestID c1)) s)) of
           (t, err) \<Rightarrow> (c1\<lparr>transport := t\<rparr>, err)))"

section \<open>wrapper.go: the tool adapter\<close>

text \<open>
  Modelled from the spec: the host's \<open>tools.ToolResult\<close> and its two constructors
  \<open>tools.NewToolResult\<close> and \<open>tools.ErrorResult\<close> (package \<open>tools\<close> is not part of the
  sources at hand). The spec has it as a variant carrying either success text or an error
  marker with its message.
\<close>

datatype ToolResult = NewToolResult string | ErrorResult string

text \<open>
  The adapter refers to its client by pointer. The model keeps the tool and the name of the
  client's server, and the operations that use the client take its state as an argument.
\<close>

record ToolWrapper =
  wrapper_client :: string
  wrapper_tool :: MCPTool



definition Description :: "ToolWrapper \<Rightarrow> string" where
  "Description w = ''[MCP:'' @ wrapper_client w @ ''] '' @ tool_Description (wrapper_tool w)"

definition Parameters :: "ToolWrapper \<Rightarrow> (string \<times> json) list" where
  "Parameters w = tool_InputSchema (wrapper_tool w)"

definition Execute ::
  "golib \<Rightarrow> ToolWrapper \<Rightarrow> Client \<Rightarrow> (string \<times> json) list \<Rightarrow> send_outcome \<times> recv_outcome
     \<Rightarrow> Client \<times> ToolResult" where
  "Execute L w c args io =
     (case CallTool L c (tool_Name (wrapper_tool w)) args io of
        (c', Inl err) \<Rightarrow>
          (c', ErrorResult
                 (''MCP tool '' @ tool_Name (wrapper_tool w) @ '' error: '' @ errorString L err))
      | (c', Inr result) \<Rightarrow> (c', NewToolResult result))"

section \<open>registry.go: the fleet manager\<close>

text \<open>
  Modelled from the spec: \<open>config.MCPServerConfig\<close> (package \<open>config\<close> is not part of the
  sources at hand), with the five fields of a server descriptor that \<open>connectServer\<close> reads.
\<close>

record MCPServerConfig =
  cfg_Name :: string
  cfg_Command :: string
  cfg_Args :: "string list"
  cfg_Env :: "string list option"
  cfg_Enabled :: bool

text \<open>
  Modelled from the spec: the host's \<open>tools.ToolRegistry\<close>, of which the manager only uses
  \<open>Register\<close>. The model keeps the adapters in the order of their registration.
\<close>

type_synonym ToolRegistry = "ToolWrapper list"



record Manager =
  clients :: "(string \<times> Client) list"
  registry :: ToolRegistry
  cfg :: "MCPServerConfig list"


text \<open>What the environment does during the connection of one server.\<close>

record server_io =
  io_pipes :: pipe_outcome
  io_spawn :: bool
  io_initialize :: "send_outcome \<times> recv_outcome \<times> send_outcome"
  io_list :: "send_outcome \<times> recv_outcome"

definition connectServer :: "string list \<Rightarrow> MCPServerConfig \<Rightarrow> server_io \<Rightarrow> error + Client" where
  "connectServer parent serverCfg io =
     (case NewClient
             \<lparr>server_Name = cfg_Name serverCfg, server_Command = cfg_Command serverCfg,
              server_Args = cfg_Args serverCfg, server_Env = cfg_Env serverCfg,
              server_Enabled = cfg_Enabled serverCfg\<rparr> (io_pipes io) of
        Inl err \<Rightarrow> Inl (Wrapf ''failed to create client'' err)
      | Inr client \<Rightarrow>
          (case Connect client parent (io_spawn io) of
             (client1, Some err) \<Rightarrow> Inl (Wrapf ''failed to connect'' err)
           | (client1, None) \<Rightarrow>
               (case Initialize client1 (io_initialize io) of
                  (client2, Some err) \<Rightarrow>
                    (case Close client2 of (client3, _) \<Rightarrow> Inl (Wrapf ''failed to initialize'' err))
                | (client2, None) \<Rightarrow> Inr (fst (ListTools client2 (io_list io))))))"





text \<open>\<open>Manager.Stop\<close> returns, beside the manager, the clients as their \<open>Close\<close> leaves them.\<close>

definition Stop :: "Manager \<Rightarrow> Manager \<times> Client list" where
  "Stop m = (m\<lparr>clients := []\<rparr>, map (\<lambda>(name, client). fst (Close client)) (clients m))"



section \<open>Sessions as sequences of operations\<close>

text \<open>
  One call on a client together with the outcomes the environment chooses for it. A session
  is a list of such calls, run from left to right.
\<close>

datatype operation =
    OpConnect "string list" bool
  | OpInitialize "send_outcome \<times> recv_outcome \<times> send_outcome"
  | OpListTools "send_outcome \<times> recv_outcome"
  | OpCallTool string "(string \<times> json) list" "send_outcome \<times> recv_outcome"
  | OpShutdown send_outcome
  | OpClose

fun perform :: "golib \<Rightarrow> Client \<Rightarrow> operation \<Rightarrow> Client" where
  "perform L c (OpConnect parent spawn) = fst (Connect c parent spawn)"
| "perform L c (OpInitialize io) = fst (Initialize c io)"
| "perform L c (OpListTools io) = fst (ListTools c io)"
| "perform L c (OpCallTool name args io) = fst (CallTool L c name args io)"
| "perform L c (OpShutdown s) = fst (Shutdown c s)"
| "perform L c OpClose = fst (Close c)"

definition session :: "golib \<Rightarrow> Client \<Rightarrow> operation list \<Rightarrow> Client" where
  "session L c ops = foldl (perform L) c ops"

text \<open>The ids of the requests written to the child's stdin, in the order of the writes.\<close>

fun eventID :: "event \<Rightarrow> int option" where
  "eventID (Written req) = msg_id req"
| "eventID _ = None"

definition wireIDs :: "Client \<Rightarrow> int list" where
  "wireIDs c = List.map_filter eventID (trace (transport c))"

section \<open>Auxiliary notions used in the statements\<close>

text \<open>\<open>strings.Contains\<close>, as used by the assertions of the test suite.\<close>

fun hasPrefix :: "string \<Rightarrow> string \<Rightarrow> bool" where
  "hasPrefix s [] = True"
| "hasPrefix [] (p # ps) = False"
| "hasPrefix (c # cs) (p # ps) = (c = p \<and> hasPrefix cs ps)"

fun contains :: "string \<Rightarrow> string \<Rightarrow> bool" where
  "contains [] sub = (sub = [])"
| "contains (c # cs) sub = (hasPrefix (c # cs) sub \<or> contains cs sub)"

text \<open>
  The text of one block of a tool call result as the specification has it: the \<open>text\<close>
  member of a block whose \<open>type\<close> member is the string \<open>text\<close>, and nothing for any
  other block.
\<close>

fun blockTextSpec :: "json \<Rightarrow> string" where
  "blockTextSpec (JObject kvs) =
     (if mapIndex kvs ''type'' = Some (JString ''text'') then
        (case mapIndex kvs ''text'' of Some (JString s) \<Rightarrow> s | _ \<Rightarrow> [])
      else [])"
| "blockTextSpec _ = []"

text \<open>
  A block is plain when its \<open>type\<close> and \<open>text\<close> members are spelled exactly so and occur
  at most once each: no member differs from them in letter case only.
\<close>

definition memberOnce :: "(string \<times> json) list \<Rightarrow> string \<Rightarrow> bool" where
  "memberOnce kvs name =
     ((\<forall>k \<in> set (map fst kvs). foldName k = foldName name \<longrightarrow> k = name) \<and>
      length (filter (\<lambda>k. k = name) (map fst kvs)) \<le> 1)"

fun plainBlock :: "json \<Rightarrow> bool" where
  "plainBlock (JObject kvs) = (memberOnce kvs ''type'' \<and> memberOnce kvs ''text'')"
| "plainBlock _ = True"


text \<open>
  What a string field holds after an object was decoded in which the member \<open>name\<close>
  occurs at most once: the string of the member, or the old value.
\<close>

definition fieldString :: "(string \<times> json) list \<Rightarrow> string \<Rightarrow> string \<Rightarrow> lib_error + string" where
  "fieldString kvs name cur =
     (case map_of kvs name of None \<Rightarrow> Inr cur | Some v \<Rightarrow> intoString cur v)"

definition textBlock :: "string \<Rightarrow> json" where
  "textBlock s = JObject [(''type'', JString ''text''), (''text'', JString s)]"

text \<open>
  An instance of the library parameters for evaluating concrete inputs. No result stated
  with it depends on the choice.
\<close>

definition lib0 :: golib where
  "lib0 = \<lparr>b64decode = (\<lambda>s. None), errtext = (\<lambda>e. []), fmtv = (\<lambda>j. [])\<rparr>"

section \<open>Example inputs\<close>

text \<open>
  The server of the specification's scenarios with the replies of its handshake, and the
  client states before and after the handshake.
\<close>

definition exampleServer :: MCPServer where
  "exampleServer =
     \<lparr>server_Name = ''fs'', server_Command = ''echo-srv'', server_Args = [],
      server_Env = None, server_Enabled = True\<rparr>"

definition freshClient :: Client where
  "freshClient =
     \<lparr>server = exampleServer,
      transport = \<lparr>cmd_Path = ''echo-srv'', cmd_Args = [], cmd_Env = None, cmd_Process = False,
                   closed = False, trace = []\<rparr>,
      requestID = 0, capabilities = zeroServerCapabilities, tools = [], initialized = False\<rparr>"

definition initializeReply :: json where
  "initializeReply =
     JObject [(''jsonrpc'', JString ''2.0''), (''id'', JInt 1),
       (''result'', JObject
          [(''protocolVersion'', JString ''2024-11-05''),
           (''serverInfo'', JObject [(''name'', JString ''fs''), (''version'', JString ''1.0'')]),
           (''capabilities'', JObject
              [(''tools'', JObject [(''listChanged'', JBool False)]),
               (''resources'', JObject [(''subscribe'', JBool False), (''listChanged'', JBool False)]),
               (''prompts'', JObject [(''listChanged'', JBool False)])])])]"

definition toolsListReply :: json where
  "toolsListReply =
     JObject [(''jsonrpc'', JString ''2.0''), (''id'', JInt 2),
       (''result'', JObject
          [(''tools'', JArray
             [JObject [(''name'', JString ''read_file''), (''description'', JString ''Read a file''),
                       (''inputSchema'', JObject [(''type'', JString ''object'')])],
              JObject [(''name'', JString ''write_file''), (''description'', JString ''Write a file''),
                       (''inputSchema'', JObject [(''type'', JString ''object'')])]])])]"

definition handshake :: "operation list" where
  "handshake =
     [OpConnect [] True,
      OpInitialize (SendOk, RecvLine (Doc initializeReply), SendOk),
      OpListTools (SendOk, RecvLine (Doc toolsListReply))]"

definition readyClient :: Client where
  "readyClient = session lib0 freshClient handshake"

text \<open>The error reply of scenario D, and a successful reply whose result has \<open>isError\<close>.\<close>

definition errorReply :: json where
  "errorReply =
     JObject [(''jsonrpc'', JString ''2.0''), (''id'', JInt 7),
       (''error'', JObject
          [(''code'', JInt (- 32602)), (''message'', JString ''Invalid params''),
           (''data'', JObject [(''field'', JString ''name'')])])]"

definition isErrorReply :: json where
  "isErrorReply =
     JObject [(''jsonrpc'', JString ''2.0''), (''id'', JInt 3),
       (''result'', JObject
          [(''content'', JArray [textBlock ''disk full'']), (''isError'', JBool True)])]"

text \<open>A block whose \<open>type\<close> member is \<open>image\<close> and which has a further member \<open>TYPE\<close>.\<close>

definition variantBlock :: json where
  "variantBlock =
     JObject [(''type'', JString ''image''), (''TYPE'', JString ''text''),
              (''text'', JString ''x'')]"

definition readFileWrapper :: ToolWrapper where
  "readFileWrapper =
     \<lparr>wrapper_client = ''fs'',
      wrapper_tool = \<lparr>tool_Name = ''read_file'', tool_Description = ''Read a file'',
                      tool_InputSchema = [(''type'', JString ''object'')]\<rparr>\<rparr>"



section \<open>The outcome of a fleet start, as the specification describes it\<close>




section \<open>Invariants of a session\<close>

text \<open>
  What one operation may do to the counter and to the ids on the wire: nothing, or one
  increment, after which at most the new value is written.
\<close>

definition idStep :: "Client \<Rightarrow> Client \<Rightarrow> bool" where
  "idStep c c' =
     ((requestID c' = requestID c \<and> wireIDs c' = wireIDs c) \<or>
      (requestID c' = wrap64 (requestID c + 1) \<and>
       (wireIDs c' = wireIDs c \<or> wireIDs c' = wireIDs c @ [requestID c'])))"

text \<open>
  The ids written so far increase strictly and lie between 1 and the counter, which is at
  most \<open>n\<close>.
\<close>

definition idsInv :: "Client \<Rightarrow> int \<Rightarrow> bool" where
  "idsInv c n =
     (0 \<le> requestID c \<and> requestID c \<le> n \<and> sorted_wrt (<) (wireIDs c) \<and>
      list_all (\<lambda>i. 1 \<le> i \<and> i \<le> requestID c) (wireIDs c))"

text \<open>The state \<open>Close\<close> leaves behind: the transport closed and the flag cleared.\<close>

definition shut :: "Client \<Rightarrow> bool" where
  "shut c = (closed (transport c) \<and> \<not> initialized c)"

text \<open>A whole session of the example server: handshake, two tool calls, shutdown.\<close>

definition textReply :: "int \<Rightarrow> string \<Rightarrow> json" where
  "textReply n s =
     JObject [(''jsonrpc'', JString ''2.0''), (''id'', JInt n),
       (''result'', JObject [(''content'', JArray [textBlock s])])]"

definition exampleSession :: "operation list" where
  "exampleSession =
     handshake @
     [OpCallTool ''read_file'' [] (SendOk, RecvLine (Doc (textReply 3 ''x''))),
      OpCallTool ''read_file'' [] (NewlineFails, RecvEOF),
      OpShutdown SendOk]"

section \<open>Decoding of tool call results\<close>

lemma contentText_CRaw: "contentText (CRaw item) = blockTextSpec item"
  by (cases item) (auto split: option.splits json.splits)

lemma fold_type_text: "foldName ''type'' \<noteq> foldName ''text''"
  by (simp add: foldName.simps fold_char_def)

lemma findField_text_names:
  "findField [''type'', ''text''] k =
     (if k = ''type'' \<or> foldName k = foldName ''type'' then Some ''type''
      else if k = ''text'' \<or> foldName k = foldName ''text'' then Some ''text'' else None)"
  using fold_type_text by (auto simp: findField_def)

lemma memberOnce_Cons:
  "memberOnce ((k, v) # kvs) name \<longleftrightarrow>
     memberOnce kvs name \<and> (foldName k = foldName name \<longrightarrow> k = name \<and> name \<notin> fst ` set kvs)"
  by (auto simp: memberOnce_def filter_empty_conv image_iff)

lemma intoString_cases:
  "intoString c v = Inl e \<Longrightarrow> e = UnmarshalTypeError"
  by (cases v) auto

lemma mapIndex_once:
  "length (filter (\<lambda>k. k = name) (map fst kvs)) \<le> 1 \<Longrightarrow> mapIndex kvs name = map_of kvs name"
proof (induction kvs)
  case Nil
  then show ?case by (simp add: mapIndex_def)
next
  case (Cons kv kvs)
  obtain k v where kv: "kv = (k, v)" by (cases kv)
  show ?case
  proof (cases "k = name")
    case True
    with Cons.prems kv have "name \<notin> fst ` set kvs"
      by (auto simp: filter_empty_conv image_iff)
    then have "map_of (rev kvs) name = None"
      by (simp add: map_of_eq_None_iff)
    with True kv show ?thesis by (simp add: mapIndex_def map_add_def)
  next
    case False
    with Cons kv show ?thesis by (simp add: mapIndex_def map_add_def split: option.splits)
  qed
qed

lemma fieldString_absent: "name \<notin> fst ` set kvs \<Longrightarrow> fieldString kvs name cur = Inr cur"
  using map_of_eq_None_iff [of kvs name] by (simp add: fieldString_def)

lemma fieldString_Cons_other: "k \<noteq> name \<Longrightarrow> fieldString ((k, v) # kvs) name cur = fieldString kvs name cur"
  by (simp add: fieldString_def)

lemma fieldString_Cons_same: "fieldString ((name, v) # kvs) name cur = intoString cur v"
  by (simp add: fieldString_def)

lemma setTextContent_type:
  "setTextContent t ''type'' v = map_sum id (\<lambda>s. t\<lparr>text_Type := s\<rparr>) (intoString (text_Type t) v)"
  by (simp add: setTextContent_def)

lemma setTextContent_text:
  "setTextContent t ''text'' v = map_sum id (\<lambda>s. t\<lparr>text_Text := s\<rparr>) (intoString (text_Text t) v)"
  by (simp add: setTextContent_def)

lemma decodeFields_text_plain:
  "memberOnce kvs ''type'' \<Longrightarrow> memberOnce kvs ''text'' \<Longrightarrow>
   decodeFields setTextContent [''type'', ''text''] acc kvs =
     (case fieldString kvs ''type'' (text_Type acc) of
        Inl e \<Rightarrow> Inl UnmarshalTypeError
      | Inr ty \<Rightarrow>
         (case fieldString kvs ''text'' (text_Text acc) of
            Inl e \<Rightarrow> Inl UnmarshalTypeError
          | Inr tx \<Rightarrow> Inr (acc\<lparr>text_Type := ty, text_Text := tx\<rparr>)))"
proof (induction kvs arbitrary: acc)
  case Nil
  then show ?case by (simp add: fieldString_def)
next
  case (Cons kv kvs)
  obtain k v where kv: "kv = (k, v)" by (cases kv)
  from Cons.prems have m1: "memberOnce kvs ''type''" and m2: "memberOnce kvs ''text''"
    and f1: "foldName k = foldName ''type'' \<longrightarrow> k = ''type'' \<and> ''type'' \<notin> fst ` set kvs"
    and f2: "foldName k = foldName ''text'' \<longrightarrow> k = ''text'' \<and> ''text'' \<notin> fst ` set kvs"
    unfolding kv by (simp_all add: memberOnce_Cons)
  note IH = Cons.IH [OF m1 m2]
  consider (ty) "k = ''type''" | (tx) "k = ''text''"
    | (other) "foldName k \<noteq> foldName ''type''" "foldName k \<noteq> foldName ''text''"
    using f1 f2 by blast
  then show ?case
  proof cases
    case ty
    with f1 have absent: "''type'' \<notin> fst ` set kvs" by simp
    show ?thesis
    proof (cases "intoString (text_Type acc) v")
      case (Inl e)
      with intoString_cases [OF Inl] show ?thesis
        by (simp add: kv ty findField_text_names setTextContent_type setTextContent_text fieldString_Cons_same cong: sum.case_cong)
    next
      case (Inr s)
      then show ?thesis
        by (simp add: kv ty findField_text_names setTextContent_type setTextContent_text fieldString_Cons_same IH
            fieldString_absent [OF absent] fieldString_Cons_other split: sum.splits cong: sum.case_cong)
    qed
  next
    case tx
    with f2 have absent: "''text'' \<notin> fst ` set kvs" by simp
    show ?thesis
    proof (cases "intoString (text_Text acc) v")
      case (Inl e)
      with intoString_cases [OF Inl] show ?thesis
        by (simp add: kv tx findField_text_names setTextContent_type setTextContent_text fieldString_Cons_same
           fieldString_Cons_other fold_type_text[symmetric] split: sum.splits cong: sum.case_cong)
    next
      case (Inr s)
      then show ?thesis
        by (simp add: kv tx findField_text_names setTextContent_type setTextContent_text fieldString_Cons_same IH
            fieldString_absent [OF absent] fieldString_Cons_other fold_type_text[symmetric] split: sum.splits cong: sum.case_cong)
    qed
  next
    case other
    then have "k \<noteq> ''type''" "k \<noteq> ''text''" by auto
    with other show ?thesis
      by (simp add: kv findField_text_names IH fieldString_Cons_other cong: sum.case_cong)
  qed
qed

lemma memberOnce_count: "memberOnce kvs name \<Longrightarrow> length (filter (\<lambda>k. k = name) (map fst kvs)) \<le> 1"
  by (simp add: memberOnce_def)

lemma intoString_Inr_iff:
  "intoString c v = Inr s \<longleftrightarrow> (v = JString s \<or> (v = JNull \<and> s = c))"
  by (cases v) auto

lemma tryText_object:
  assumes "memberOnce kvs ''type''" "memberOnce kvs ''text''"
  shows "tryText (JObject kvs) =
     (if map_of kvs ''type'' = Some (JString ''text'') then
        (case map_of kvs ''text'' of
           None \<Rightarrow> Some (CText \<lparr>text_Type = ''text'', text_Text = []\<rparr>)
         | Some JNull \<Rightarrow> Some (CText \<lparr>text_Type = ''text'', text_Text = []\<rparr>)
         | Some (JString s) \<Rightarrow> Some (CText \<lparr>text_Type = ''text'', text_Text = s\<rparr>)
         | Some _ \<Rightarrow> None)
      else None)"
proof (cases "map_of kvs ''type'' = Some (JString ''text'')")
  case True
  then show ?thesis
    by (cases "map_of kvs ''text''"; cases "the (map_of kvs ''text'')")
       (simp_all add: tryText_def unmarshalTextContent_def unmarshalStruct_def
        decodeFields_text_plain [OF assms] fieldString_def zeroTextContent_def)
next
  case False
  have "\<And>t. fieldString kvs ''type'' [] = Inr t \<Longrightarrow> t \<noteq> ''text''"
    using False by (auto simp: fieldString_def intoString_Inr_iff split: option.splits)
  then show ?thesis using False
    by (auto simp: tryText_def unmarshalTextContent_def unmarshalStruct_def
        decodeFields_text_plain [OF assms] zeroTextContent_def split: sum.splits)
qed

lemma tryText_other: "\<forall>kvs. item \<noteq> JObject kvs \<Longrightarrow> tryText item = None"
  by (cases item) (simp_all add: tryText_def unmarshalTextContent_def unmarshalStruct_def zeroTextContent_def)

lemma tryImage_text: "tryImage item = Some c \<Longrightarrow> contentText c = []"
  by (auto simp: tryImage_def split: sum.splits if_splits)

lemma tryResource_text: "tryResource L item = Some c \<Longrightarrow> contentText c = []"
  by (auto simp: tryResource_def split: sum.splits if_splits)

lemma toInterface_JString_iff: "toInterface v = JString s \<longleftrightarrow> v = JString s"
  by (cases v) (auto split: if_splits)

lemma mapIndex_toInterface:
  "mapIndex (map (map_prod id toInterface) kvs) k = map_option toInterface (mapIndex kvs k)"
proof -
  have "map_of (map (map_prod id toInterface) xs) k = map_option toInterface (map_of xs k)"
    for xs :: "(string \<times> json) list"
    by (induction xs) auto
  then show ?thesis
    by (simp add: mapIndex_def rev_map)
qed

lemma contentText_toInterface: "contentText (CRaw (toInterface item)) = contentText (CRaw item)"
proof (cases item)
  case (JObject kvs)
  have a: "mapIndex (map (map_prod id toInterface) kvs) k = Some (JString s) \<longleftrightarrow>
      mapIndex kvs k = Some (JString s)" for k s
    by (auto simp: mapIndex_toInterface toInterface_JString_iff)
  have ty: "(case mapIndex (map (map_prod id toInterface) kvs) k of
               Some (JString t) \<Rightarrow> f t | _ \<Rightarrow> d) =
            (case mapIndex kvs k of Some (JString t) \<Rightarrow> f t | _ \<Rightarrow> d)" for k d
      and f :: "string \<Rightarrow> string"
  proof (cases "\<exists>t. mapIndex kvs k = Some (JString t)")
    case True
    then obtain t where t: "mapIndex kvs k = Some (JString t)" by blast
    with a [of k t] show ?thesis by simp
  next
    case False
    with a [of k] have "\<not> (\<exists>t. mapIndex (map (map_prod id toInterface) kvs) k = Some (JString t))"
      by blast
    with False show ?thesis by (auto split: option.splits json.splits)
  qed
  show ?thesis
    unfolding JObject toInterface.simps contentText.simps
    by (simp only: ty [of _ "\<lambda>t. t"] ty)
qed (simp_all split: if_splits)

lemma blockTextSpec_toInterface: "blockTextSpec (toInterface item) = blockTextSpec item"
  using contentText_toInterface [of item] by (simp only: contentText_CRaw)

lemma decodeItem_fallback:
  "tryText item = None \<Longrightarrow> contentText (decodeItem L item) = [] \<or> contentText (decodeItem L item) = blockTextSpec item"
  by (auto simp: decodeItem_def contentText_CRaw blockTextSpec_toInterface split: option.splits
      dest: tryImage_text tryResource_text)

lemma decodeItem_plain:
  assumes "plainBlock item"
  shows "contentText (decodeItem L item) = blockTextSpec item"
proof (cases item)
  case (JObject kvs)
  with assms have m: "memberOnce kvs ''type''" "memberOnce kvs ''text''" by simp_all
  have idx: "mapIndex kvs ''type'' = map_of kvs ''type''" "mapIndex kvs ''text'' = map_of kvs ''text''"
    by (rule mapIndex_once [OF memberOnce_count], rule m)+
  show ?thesis
  proof (cases "tryText item")
    case None
    then have "blockTextSpec item = []"
      unfolding JObject tryText_object [OF m]
      by (auto simp: idx split: if_splits option.splits json.splits)
    with decodeItem_fallback [OF None, of L] show ?thesis by auto
  next
    case (Some c)
    then have "contentText c = blockTextSpec item"
      unfolding JObject tryText_object [OF m]
      by (auto simp: idx split: if_splits option.splits json.splits)
    with Some show ?thesis by (simp add: decodeItem_def)
  qed
qed (use decodeItem_fallback [OF tryText_other, of item L] in auto)


lemma plainBlock_textBlock: "plainBlock (textBlock s)"
  by (simp add: textBlock_def memberOnce_def fold_type_text fold_type_text [symmetric])

lemma blockTextSpec_textBlock: "blockTextSpec (textBlock s) = s"
  by (simp add: textBlock_def mapIndex_def)

lemma decodeItem_textBlock:
  "decodeItem L (textBlock s) = CText \<lparr>text_Type = ''text'', text_Text = s\<rparr>"
  by (simp add: decodeItem_def tryText_def unmarshalTextContent_def unmarshalStruct_def
      textBlock_def findField_text_names setTextContent_type setTextContent_text
      zeroTextContent_def fold_type_text [symmetric])

lemma unmarshal_never_fails: "snd (ToolCallResult_UnmarshalJSON L t data) = None"
  by (simp add: ToolCallResult_UnmarshalJSON_def split: sum.splits)

lemma unmarshalToolCallResult_Doc: "\<exists>res. unmarshalToolCallResult L (Doc j) = Inr res"
proof -
  obtain t e where te: "ToolCallResult_UnmarshalJSON L zeroToolCallResult (Doc j) = (t, e)"
    by (cases "ToolCallResult_UnmarshalJSON L zeroToolCallResult (Doc j)")
  with unmarshal_never_fails [of L zeroToolCallResult "Doc j"] have "e = None" by simp
  with te show ?thesis by (simp add: unmarshalToolCallResult_def)
qed

lemma unmarshal_array:
  "unmarshalToolCallResult L (Doc (JArray items)) =
     Inr \<lparr>Content = map (decodeItem L) items, IsError = False\<rparr>"
  by (simp add: unmarshalToolCallResult_def ToolCallResult_UnmarshalJSON_def unmarshalString_def
      unmarshalRawMessages_def zeroToolCallResult_def)

lemma unmarshal_string:
  "unmarshalToolCallResult L (Doc (JString s)) =
     Inr \<lparr>Content = [CText \<lparr>text_Type = ''text'', text_Text = s\<rparr>], IsError = False\<rparr>"
  by (simp add: unmarshalToolCallResult_def ToolCallResult_UnmarshalJSON_def unmarshalString_def
      zeroToolCallResult_def)

lemma fold_content_isError: "foldName ''content'' \<noteq> foldName ''isError''"
  by (simp add: foldName.simps fold_char_def)

lemma unmarshal_object:
  "list_all fitsInterface items \<Longrightarrow>
   unmarshalToolCallResult L (Doc (JObject [(''content'', JArray items), (''isError'', JBool b)])) =
     Inr \<lparr>Content = map CRaw items, IsError = b\<rparr>"
  by (simp add: unmarshalToolCallResult_def ToolCallResult_UnmarshalJSON_def unmarshalString_def
      unmarshalRawMessages_def unmarshalContentWrapper_def unmarshalStruct_def findField_def
      setContentWrapper_def zeroToolCallResult_def)

lemma unmarshal_object_content_only:
  "list_all fitsInterface items \<Longrightarrow>
   unmarshalToolCallResult L (Doc (JObject [(''content'', JArray items)])) =
     Inr \<lparr>Content = map CRaw items, IsError = False\<rparr>"
  by (simp add: unmarshalToolCallResult_def ToolCallResult_UnmarshalJSON_def unmarshalString_def
      unmarshalRawMessages_def unmarshalContentWrapper_def unmarshalStruct_def findField_def
      setContentWrapper_def zeroToolCallResult_def)

lemma GetText_raw: "GetText \<lparr>Content = map CRaw items, IsError = b\<rparr> = concat (map blockTextSpec items)"
  by (simp add: GetText_def contentText_CRaw comp_def)

lemma GetText_array:
  assumes "\<forall>item \<in> set items. plainBlock item"
  shows "GetText \<lparr>Content = map (decodeItem L) items, IsError = b\<rparr> = concat (map blockTextSpec items)"
proof -
  have "map (contentText \<circ> decodeItem L) items = map blockTextSpec items"
    by (rule map_cong [OF refl]) (use assms in \<open>simp add: decodeItem_plain\<close>)
  then have eq: "map contentText (map (decodeItem L) items) = map blockTextSpec items"
    by (simp only: map_map)
  show ?thesis unfolding GetText_def by (simp only: ToolCallResult.select_convs eq)
qed

lemma unmarshal_object_discarded:
  "\<not> list_all fitsInterface items \<Longrightarrow>
   unmarshalToolCallResult L (Doc (JObject [(''content'', JArray items), (''isError'', JBool b)])) =
     Inr \<lparr>Content = [], IsError = False\<rparr>"
  by (simp add: unmarshalToolCallResult_def ToolCallResult_UnmarshalJSON_def unmarshalString_def
      unmarshalRawMessages_def unmarshalContentWrapper_def unmarshalStruct_def findField_def
      setContentWrapper_def zeroToolCallResult_def)

text \<open>
  Claim C5, as the code has it. Every document decodes into a tool call result without
  error. A bare string gives exactly one text block holding the string. An array of
  blocks \<open>{type:"text",text:s}\<close> gives these text blocks in order, with the concatenation
  of their texts as flattened text. In an array of plain blocks (the \<open>type\<close> and \<open>text\<close>
  members spelled exactly so and not repeated) every block contributes its text when its
  type is \<open>text\<close> and nothing otherwise, in the original order. An object with a
  \<open>content\<close> array, with or without \<open>isError\<close>, is passed through when no number in
  the content is outside the range of a \<open>float64\<close>: then \<open>isError\<close> is the member
  (false when absent) and the blocks contribute as in the array; otherwise the object is
  dropped, still without error. \<open>{"content":[],"isError":true}\<close> gives \<open>isError = true\<close>
  and empty flattened text.
\<close>

theorem tool_call_result_shapes:
  assumes "\<forall>item \<in> set items. plainBlock item" and "list_all fitsInterface blocks"
  shows "(\<exists>res. unmarshalToolCallResult L (Doc j) = Inr res) \<and>
    unmarshalToolCallResult L (Doc (JString s)) =
      Inr \<lparr>Content = [CText \<lparr>text_Type = ''text'', text_Text = s\<rparr>], IsError = False\<rparr> \<and>
    unmarshalToolCallResult L (Doc (JArray (map textBlock ss))) =
      Inr \<lparr>Content = map (\<lambda>s. CText \<lparr>text_Type = ''text'', text_Text = s\<rparr>) ss, IsError = False\<rparr> \<and>
    GetText \<lparr>Content = map (\<lambda>s. CText \<lparr>text_Type = ''text'', text_Text = s\<rparr>) ss, IsError = False\<rparr> =
      concat ss \<and>
    (\<exists>res. unmarshalToolCallResult L (Doc (JArray items)) = Inr res \<and> \<not> IsError res \<and>
       GetText res = concat (map blockTextSpec items)) \<and>
    (\<exists>res. unmarshalToolCallResult L
              (Doc (JObject [(''content'', JArray blocks), (''isError'', JBool b)])) = Inr res \<and>
       IsError res = b \<and> GetText res = concat (map blockTextSpec blocks)) \<and>
    (\<exists>res. unmarshalToolCallResult L (Doc (JObject [(''content'', JArray blocks)])) = Inr res \<and>
       \<not> IsError res \<and> GetText res = concat (map blockTextSpec blocks)) \<and>
    (\<not> list_all fitsInterface others \<longrightarrow>
       unmarshalToolCallResult L
         (Doc (JObject [(''content'', JArray others), (''isError'', JBool b)])) =
         Inr \<lparr>Content = [], IsError = False\<rparr>) \<and>
    unmarshalToolCallResult L (Doc (JObject [(''content'', JArray []), (''isError'', JBool True)])) =
      Inr \<lparr>Content = [], IsError = True\<rparr> \<and>
    GetText \<lparr>Content = [], IsError = True\<rparr> = []"
proof -
  have "unmarshalToolCallResult L (Doc (JArray (map textBlock ss))) =
      Inr \<lparr>Content = map (\<lambda>s. CText \<lparr>text_Type = ''text'', text_Text = s\<rparr>) ss, IsError = False\<rparr>"
    by (simp add: unmarshal_array decodeItem_textBlock comp_def)
  moreover have "GetText \<lparr>Content = map (\<lambda>s. CText \<lparr>text_Type = ''text'', text_Text = s\<rparr>) ss,
      IsError = False\<rparr> = concat ss"
    by (simp add: GetText_def comp_def)
  moreover have "unmarshalToolCallResult L (Doc (JObject [(''content'', JArray []), (''isError'', JBool True)])) =
      Inr \<lparr>Content = [], IsError = True\<rparr>"
    using unmarshal_object [of "[]" L True] by simp
  moreover have "GetText \<lparr>Content = [], IsError = True\<rparr> = []"
    by (simp add: GetText_def)
  ultimately show ?thesis
    using unmarshalToolCallResult_Doc [of L j] unmarshal_string [of L s]
      GetText_array [OF assms(1), of L False] GetText_raw [of blocks]
      unmarshal_object_discarded [of others L b]
    by (simp add: unmarshal_array unmarshal_object [OF assms(2)]
        unmarshal_object_content_only [OF assms(2)])
qed

text \<open>
  Against claim C5 as stated: in an array, a block whose \<open>type\<close> member is \<open>image\<close>, so
  that it is no text block and contributes nothing by the specification, is decoded as a
  text block through its member \<open>TYPE\<close> and contributes its text.
\<close>

theorem non_text_block_contributes_text:
  "mapIndex [(''type'', JString ''image''), (''TYPE'', JString ''text''), (''text'', JString ''x'')]
     ''type'' = Some (JString ''image'') \<and>
   blockTextSpec variantBlock = [] \<and>
   unmarshalToolCallResult lib0 (Doc (JArray [variantBlock])) =
     Inr \<lparr>Content = [CText \<lparr>text_Type = ''text'', text_Text = ''x''\<rparr>], IsError = False\<rparr> \<and>
   GetText \<lparr>Content = [CText \<lparr>text_Type = ''text'', text_Text = ''x''\<rparr>], IsError = False\<rparr> = ''x''"
  by code_simp

text \<open>
  The theorem at an array that mixes text blocks with an image block and a number, and at
  objects with such a content and with a number beyond \<open>float64\<close>.
\<close>

theorem tool_call_result_shapes_witness:
  "plainBlock (textBlock ''a'') \<and>
   plainBlock (JObject [(''type'', JString ''image''), (''data'', JString ''AAAA'')]) \<and>
   plainBlock (JInt 7) \<and>
   plainBlock (textBlock ''b'') \<and>
   fitsInterface (textBlock ''c'') \<and> fitsInterface (JInt 7) \<and>
   \<not> fitsInterface (JFloat 1 400) \<and>
   unmarshalToolCallResult lib0 (Doc (JString ''hello'')) =
      Inr \<lparr>Content = [CText \<lparr>text_Type = ''text'', text_Text = ''hello''\<rparr>], IsError = False\<rparr> \<and>
   (\<exists>res. unmarshalToolCallResult lib0
       (Doc (JArray [textBlock ''a'',
                     JObject [(''type'', JString ''image''), (''data'', JString ''AAAA'')],
                     JInt 7, textBlock ''b''])) = Inr res \<and>
       GetText res = ''ab'') \<and>
   (\<exists>res. unmarshalToolCallResult lib0
       (Doc (JObject [(''content'', JArray [textBlock ''c'', JInt 7]), (''isError'', JBool True)])) =
       Inr res \<and> IsError res \<and> GetText res = ''c'') \<and>
   unmarshalToolCallResult lib0
     (Doc (JObject [(''content'', JArray [textBlock ''c'', JFloat 1 400]), (''isError'', JBool True)])) =
     Inr \<lparr>Content = [], IsError = False\<rparr>"
proof -
  have h: "\<forall>item \<in> set [textBlock ''a'',
      JObject [(''type'', JString ''image''), (''data'', JString ''AAAA'')], JInt 7,
      textBlock ''b'']. plainBlock item"
    by (simp add: textBlock_def memberOnce_def foldName.simps fold_char_def)
  have f: "list_all fitsInterface [textBlock ''c'', JInt 7]" by code_simp
  have f1: "fitsInterface (textBlock ''c'')" "fitsInterface (JInt 7)" by code_simp+
  have g: "\<not> fitsInterface (JFloat 1 400)" by code_simp
  then have g': "\<not> list_all fitsInterface [textBlock ''c'', JFloat 1 400]" by simp
  show ?thesis
    using h f1 g g'
      tool_call_result_shapes [OF h f, of lib0 JNull "''hello''" "[]" True
        "[textBlock ''c'', JFloat 1 400]"]
    by (auto simp: textBlock_def mapIndex_def)
qed

text \<open>
  Claim C10. \<open>ToolCallResult.UnmarshalJSON\<close> returns \<open>nil\<close> on every input, also on
  bytes that are no JSON text and on documents of none of the three shapes; a number or a
  boolean leaves the receiver as it is, so that decoding into a fresh result gives empty
  content and \<open>isError = false\<close>.
\<close>

theorem tool_call_result_decoding_total:
  "snd (ToolCallResult_UnmarshalJSON L t data) = None \<and>
   (\<exists>res. unmarshalToolCallResult L (Doc j) = Inr res) \<and>
   ToolCallResult_UnmarshalJSON L t (Doc (JInt n)) = (t, None) \<and>
   ToolCallResult_UnmarshalJSON L t (Doc (JFloat m e)) = (t, None) \<and>
   ToolCallResult_UnmarshalJSON L t (Doc (JBool b)) = (t, None) \<and>
   ToolCallResult_UnmarshalJSON L t Malformed = (t, None) \<and>
   unmarshalToolCallResult L (Doc (JInt n)) = Inr \<lparr>Content = [], IsError = False\<rparr> \<and>
   unmarshalToolCallResult L (Doc (JFloat m e)) = Inr \<lparr>Content = [], IsError = False\<rparr> \<and>
   unmarshalToolCallResult L (Doc (JBool b)) = Inr \<lparr>Content = [], IsError = False\<rparr>"
  using unmarshal_never_fails [of L t data] unmarshalToolCallResult_Doc [of L j]
  by (simp add: unmarshalToolCallResult_def ToolCallResult_UnmarshalJSON_def unmarshalString_def
      unmarshalRawMessages_def unmarshalContentWrapper_def unmarshalStruct_def zeroToolCallResult_def)

section \<open>Request ids\<close>

lemma wrap64_inc: "0 \<le> n \<Longrightarrow> n < 2 ^ 63 - 1 \<Longrightarrow> wrap64 (n + 1) = n + 1"
  by (simp add: wrap64_def)

lemma map_filter_app: "List.map_filter f (xs @ ys) = List.map_filter f xs @ List.map_filter f ys"
  by (simp add: map_filter_def)

lemma Send_closed: "closed t \<Longrightarrow> Send t req out = (t, Some (Errorf ''transport is closed''))"
  by (simp add: Send_def)

lemma Send_effect:
  "Send t req out = (t', e) \<Longrightarrow>
     closed t' = closed t \<and> cmd_Process t' = cmd_Process t \<and>
     (trace t' = trace t \<or> trace t' = trace t @ [Written req] \<or>
      trace t' = trace t @ [Written req, NewlineWritten])"
  by (auto simp: Send_def split: if_splits send_outcome.splits)

lemma Send_ok_open: "Send t req out = (t', None) \<Longrightarrow> \<not> closed t"
  by (auto simp: Send_def split: if_splits send_outcome.splits)

lemma Close_transport_effect:
  "Close_transport t = (t', e) \<Longrightarrow>
     e = None \<and> closed t' \<and> List.map_filter eventID (trace t') = List.map_filter eventID (trace t)"
  by (auto simp: Close_transport_def map_filter_app map_filter_simps split: if_splits)

lemma wireIDs_Send:
  "Send t req out = (t', e) \<Longrightarrow>
     List.map_filter eventID (trace t') = List.map_filter eventID (trace t) \<or>
     List.map_filter eventID (trace t') = List.map_filter eventID (trace t) @ (case msg_id req of None \<Rightarrow> [] | Some i \<Rightarrow> [i])"
  by (auto simp: Send_def map_filter_app map_filter_simps split: if_splits send_outcome.splits option.splits)

lemma Initialize_idStep: "idStep c (fst (Initialize c io))"
proof -
  obtain s1 r s2 where io: "io = (s1, r, s2)" by (cases io)
  define c1 where "c1 = c\<lparr>requestID := wrap64 (requestID c + 1)\<rparr>"
  obtain t1 e1 where s: "Send (transport c1) (initializeRequest (requestID c1)) s1 = (t1, e1)"
    by (cases "Send (transport c1) (initializeRequest (requestID c1)) s1")
  obtain t2 e2 where n: "Send t1 initializedNotification s2 = (t2, e2)"
    by (cases "Send t1 initializedNotification s2")
  from wireIDs_Send [OF s] have a:
    "List.map_filter eventID (trace t1) = List.map_filter eventID (trace (transport c)) \<or>
     List.map_filter eventID (trace t1) = List.map_filter eventID (trace (transport c)) @ [wrap64 (requestID c + 1)]"
    by (simp add: c1_def initializeRequest_def)
  from wireIDs_Send [OF n] have b:
    "List.map_filter eventID (trace t2) = List.map_filter eventID (trace t1)"
    by (simp add: initializedNotification_def)
  show ?thesis
    using a b s n unfolding io Initialize_def idStep_def wireIDs_def Let_def c1_def [symmetric]
    by (auto simp: c1_def split: option.splits sum.splits)
qed


lemma ListTools_idStep: "idStep c (fst (ListTools c io))"
proof -
  obtain s1 r where io: "io = (s1, r)" by (cases io)
  define c1 where "c1 = c\<lparr>requestID := wrap64 (requestID c + 1)\<rparr>"
  obtain t1 e1 where s: "Send (transport c1) (listToolsRequest (requestID c1)) s1 = (t1, e1)"
    by (cases "Send (transport c1) (listToolsRequest (requestID c1)) s1")
  from wireIDs_Send [OF s] have a:
    "List.map_filter eventID (trace t1) = List.map_filter eventID (trace (transport c)) \<or>
     List.map_filter eventID (trace t1) = List.map_filter eventID (trace (transport c)) @ [wrap64 (requestID c + 1)]"
    by (simp add: c1_def listToolsRequest_def)
  show ?thesis
    using a s unfolding io ListTools_def idStep_def wireIDs_def Let_def c1_def [symmetric]
    by (auto simp: c1_def split: option.splits sum.splits)
qed

lemma CallTool_idStep: "idStep c (fst (CallTool L c name args io))"
proof -
  obtain s1 r where io: "io = (s1, r)" by (cases io)
  define c1 where "c1 = c\<lparr>requestID := wrap64 (requestID c + 1)\<rparr>"
  obtain t1 e1 where s: "Send (transport c1) (callToolRequest (requestID c1) name args) s1 = (t1, e1)"
    by (cases "Send (transport c1) (callToolRequest (requestID c1) name args) s1")
  from wireIDs_Send [OF s] have a:
    "List.map_filter eventID (trace t1) = List.map_filter eventID (trace (transport c)) \<or>
     List.map_filter eventID (trace t1) = List.map_filter eventID (trace (transport c)) @ [wrap64 (requestID c + 1)]"
    by (simp add: c1_def callToolRequest_def)
  show ?thesis
    using a s unfolding io CallTool_def idStep_def wireIDs_def Let_def c1_def [symmetric]
    by (auto simp: c1_def split: option.splits sum.splits)
qed

lemma Shutdown_idStep: "idStep c (fst (Shutdown c s1))"
proof -
  define c1 where "c1 = c\<lparr>requestID := wrap64 (requestID c + 1)\<rparr>"
  obtain t1 e1 where s: "Send (transport c1) (shutdownRequest (requestID c1)) s1 = (t1, e1)"
    by (cases "Send (transport c1) (shutdownRequest (requestID c1)) s1")
  obtain t2 e2 where cl: "Close_transport t1 = (t2, e2)" by (cases "Close_transport t1")
  from wireIDs_Send [OF s] have a:
    "List.map_filter eventID (trace t1) = List.map_filter eventID (trace (transport c)) \<or>
     List.map_filter eventID (trace t1) = List.map_filter eventID (trace (transport c)) @ [wrap64 (requestID c + 1)]"
    by (simp add: c1_def shutdownRequest_def)
  show ?thesis
    using a s cl Close_transport_effect [OF cl]
    unfolding Shutdown_def idStep_def wireIDs_def Let_def c1_def [symmetric]
    by (auto simp: c1_def)
qed

lemma Close_idStep: "idStep c (fst (Close c))"
proof -
  obtain t2 e2 where cl: "Close_transport (transport c) = (t2, e2)"
    by (cases "Close_transport (transport c)")
  show ?thesis using Close_transport_effect [OF cl] cl
    by (simp add: Close_def idStep_def wireIDs_def)
qed

lemma Connect_idStep: "idStep c (fst (Connect c parent spawn))"
  by (auto simp: Connect_def Start_transport_def idStep_def wireIDs_def map_filter_app
      map_filter_simps split: option.splits)

lemma perform_idStep: "idStep c (perform L c op)"
  by (cases op)
     (simp_all add: Initialize_idStep ListTools_idStep CallTool_idStep Shutdown_idStep
        Close_idStep Connect_idStep)

lemma idsInv_step:
  assumes "idsInv c n" "n < 2 ^ 63 - 1" "idStep c c'"
  shows "idsInv c' (n + 1)"
proof -
  from assms(1,2) have w: "wrap64 (requestID c + 1) = requestID c + 1"
    by (intro wrap64_inc) (auto simp: idsInv_def)
  show ?thesis
    using assms(1,3) unfolding idStep_def idsInv_def w
    by (fastforce simp: sorted_wrt_append list_all_iff)
qed

lemma idsInv_session:
  "idsInv c n \<Longrightarrow> n + int (length ops) < 2 ^ 63 \<Longrightarrow>
   idsInv (session L c ops) (n + int (length ops))"
proof (induction ops arbitrary: c n)
  case Nil
  then show ?case by (simp add: session_def)
next
  case (Cons op ops)
  from Cons.prems have n: "n < 2 ^ 63 - 1" by simp
  have step: "idsInv (perform L c op) (n + 1)"
    by (rule idsInv_step [OF Cons.prems(1) n perform_idStep])
  have "idsInv (session L (perform L c op) ops) (n + 1 + int (length ops))"
    by (rule Cons.IH [OF step]) (use Cons.prems in simp)
  moreover have "n + 1 + int (length ops) = n + int (length (op # ops))" by simp
  ultimately show ?case by (simp only: session_def foldl_Cons)
qed

lemma NewClient_idsInv: "NewClient srv pipes = Inr c \<Longrightarrow> idsInv c 0"
  by (auto simp: NewClient_def NewSTDIOTransport_def idsInv_def wireIDs_def map_filter_simps
      split: pipe_outcome.splits sum.splits)

lemma sorted_wrt_less_distinct: "sorted_wrt (<) (xs :: int list) \<Longrightarrow> distinct xs"
  by (induction xs) auto

text \<open>
  Claim C1. In every session run on a new client, whatever the operations and whatever the
  environment answers, the ids of the requests written to the child increase strictly, are
  pairwise different, and start from 1: each lies between 1 and the number of operations.
  The counter is an \<open>int64\<close>; the statement covers every session of fewer than \<open>2^63\<close>
  operations, within which it cannot wrap around.
\<close>

theorem request_ids_increasing:
  assumes "NewClient srv pipes = Inr c" and "int (length ops) < 2 ^ 63"
  shows "sorted_wrt (<) (wireIDs (session L c ops)) \<and>
         distinct (wireIDs (session L c ops)) \<and>
         list_all (\<lambda>i. 1 \<le> i \<and> i \<le> int (length ops)) (wireIDs (session L c ops))"
proof -
  have inv: "idsInv (session L c ops) (0 + int (length ops))"
    by (rule idsInv_session [OF NewClient_idsInv [OF assms(1)]]) (use assms(2) in simp)
  then have "sorted_wrt (<) (wireIDs (session L c ops))" by (simp add: idsInv_def)
  moreover from this have "distinct (wireIDs (session L c ops))" by (rule sorted_wrt_less_distinct)
  moreover from inv have "list_all (\<lambda>i. 1 \<le> i \<and> i \<le> int (length ops)) (wireIDs (session L c ops))"
    by (auto simp: idsInv_def list_all_iff)
  ultimately show ?thesis by simp
qed

text \<open>The example session writes the ids 1 to 5.\<close>

theorem request_ids_increasing_witness:
  "NewClient exampleServer PipesCreated = Inr freshClient \<and>
   int (length exampleSession) < 2 ^ 63 \<and>
   wireIDs (session lib0 freshClient exampleSession) = [1, 2, 3, 4, 5] \<and>
   sorted_wrt (<) (wireIDs (session lib0 freshClient exampleSession)) \<and>
   distinct (wireIDs (session lib0 freshClient exampleSession))"
proof -
  have a: "NewClient exampleServer PipesCreated = Inr freshClient" by code_simp
  have b: "int (length exampleSession) < 2 ^ 63" by code_simp
  have c: "wireIDs (session lib0 freshClient exampleSession) = [1, 2, 3, 4, 5]" by code_simp
  show ?thesis
    using a b c request_ids_increasing [OF a b, of lib0] by simp
qed

section \<open>Closing a session\<close>

lemma Close_shut: "snd (Close c) = None \<and> shut (fst (Close c))"
  by (simp add: Close_def Close_transport_def shut_def)

lemma Close_twice: "shut c \<Longrightarrow> Close c = (c, None)"
  by (simp add: Close_def Close_transport_def shut_def)

lemma Initialize_shut: "shut c \<Longrightarrow> shut (fst (Initialize c io))"
  by (cases io) (simp add: Initialize_def Send_def shut_def Let_def)

lemma ListTools_shut: "shut c \<Longrightarrow> ListTools c io = (c, Inl (Errorf ''client not initialized''))"
  by (cases io) (simp add: ListTools_def shut_def)

lemma CallTool_shut:
  "shut c \<Longrightarrow> CallTool L c name args io = (c, Inl (Errorf ''client not initialized''))"
  by (cases io) (simp add: CallTool_def shut_def)

lemma perform_shut: "shut c \<Longrightarrow> shut (perform L c op)"
proof (cases op)
  case (OpConnect parent spawn)
  assume "shut c"
  then show ?thesis by (simp add: OpConnect Connect_def Start_transport_def shut_def)
next
  case (OpShutdown s)
  assume "shut c"
  then show ?thesis by (simp add: OpShutdown Shutdown_def shut_def)
qed (simp_all add: Initialize_shut ListTools_shut CallTool_shut Close_shut)

lemma session_shut: "shut c \<Longrightarrow> shut (session L c ops)"
  unfolding session_def by (induction ops arbitrary: c) (simp_all add: perform_shut)

lemma Close_trace:
  "\<not> closed (transport c) \<Longrightarrow> cmd_Process (transport c) \<Longrightarrow>
   trace (transport (fst (Close c))) = trace (transport c) @ [StdinClosed, ProcessWaited]"
  by (simp add: Close_def Close_transport_def)


text \<open>
  Claim C7. \<open>Close\<close> returns \<open>nil\<close>. Whatever operations follow it, \<open>ListTools\<close> and
  \<open>CallTool\<close> fail with the not-initialized error, and a further \<open>Close\<close> changes
  nothing and returns \<open>nil\<close>. On an open transport whose process was started, \<open>Close\<close>
  closes stdin and then waits for the child.
\<close>

theorem closed_session_rejects_requests:
  "snd (Close c) = None \<and>
   ListTools (session L (fst (Close c)) ops) io =
     (session L (fst (Close c)) ops, Inl (Errorf ''client not initialized'')) \<and>
   CallTool L (session L (fst (Close c)) ops) name args io' =
     (session L (fst (Close c)) ops, Inl (Errorf ''client not initialized'')) \<and>
   Close (session L (fst (Close c)) ops) = (session L (fst (Close c)) ops, None) \<and>
   (\<not> closed (transport c) \<and> cmd_Process (transport c) \<longrightarrow>
      trace (transport (fst (Close c))) = trace (transport c) @ [StdinClosed, ProcessWaited])"
proof -
  have s: "shut (session L (fst (Close c)) ops)"
    by (rule session_shut) (simp add: Close_shut)
  show ?thesis
    using ListTools_shut [OF s] CallTool_shut [OF s] Close_twice [OF s] Close_trace [of c]
    by (simp add: Close_shut)
qed

text \<open>The theorem at the example client after its handshake.\<close>

theorem closed_session_rejects_requests_witness:
  "\<not> closed (transport readyClient) \<and> cmd_Process (transport readyClient) \<and>
   snd (Close readyClient) = None \<and>
   trace (transport (fst (Close readyClient))) =
     trace (transport readyClient) @ [StdinClosed, ProcessWaited] \<and>
   snd (CallTool lib0
          (session lib0 (fst (Close readyClient))
             [OpConnect [] True, OpInitialize (SendOk, RecvLine (Doc initializeReply), SendOk)])
          ''read_file'' [] (SendOk, RecvLine (Doc (textReply 4 ''x'')))) =
     Inl (Errorf ''client not initialized'') \<and>
   snd (Close (fst (Close readyClient))) = None \<and>
   fst (Close (fst (Close readyClient))) = fst (Close readyClient)"
proof -
  have a: "\<not> closed (transport readyClient)" by code_simp
  have b: "cmd_Process (transport readyClient)" by code_simp
  show ?thesis
    using a b
      closed_session_rejects_requests [of readyClient lib0
        "[OpConnect [] True, OpInitialize (SendOk, RecvLine (Doc initializeReply), SendOk)]"
        "(SendOk, RecvEOF)" "''read_file''" "[]" "(SendOk, RecvLine (Doc (textReply 4 ''x'')))"]
      closed_session_rejects_requests [of readyClient lib0 "[]"
        "(SendOk, RecvEOF)" "''read_file''" "[]" "(SendOk, RecvEOF)"]
    by (simp add: session_def)
qed

section \<open>The \<open>IsInitialized\<close> predicate\<close>

text \<open>
  Claim C9. \<open>IsInitialized\<close> tells whether the counter is positive, not whether the
  \<open>initialized\<close> flag is set: after a failed \<open>Initialize\<close> on a client that was not
  initialized it is true, while \<open>ListTools\<close> and \<open>CallTool\<close> fail with the
  not-initialized error.
\<close>

theorem IsInitialized_after_failed_Initialize:
  assumes "\<not> initialized c" and "0 \<le> requestID c" and "requestID c < 2 ^ 63 - 1"
    and "Initialize c io = (c', Some err)"
  shows "IsInitialized c = (0 < requestID c) \<and> IsInitialized c' \<and> \<not> initialized c' \<and>
     ListTools c' io1 = (c', Inl (Errorf ''client not initialized'')) \<and>
     CallTool L c' name args io2 = (c', Inl (Errorf ''client not initialized''))"
proof -
  obtain s1 r s2 where io: "io = (s1, r, s2)" by (cases io)
  have w: "wrap64 (requestID c + 1) = requestID c + 1"
    by (rule wrap64_inc [OF assms(2,3)])
  from assms(4) have c': "requestID c' = requestID c + 1 \<and> initialized c' = initialized c"
    unfolding io Initialize_def Let_def w
    by (auto split: prod.splits option.splits sum.splits)
  with assms(1,2) have "IsInitialized c'" "\<not> initialized c'"
    by (simp_all add: IsInitialized_def)
  then show ?thesis
    by (cases io1; cases io2) (simp add: IsInitialized_def ListTools_def CallTool_def)
qed

text \<open>The theorem at a new client whose server closes the connection during the handshake.\<close>

theorem IsInitialized_after_failed_Initialize_witness:
  "\<not> initialized freshClient \<and> 0 \<le> requestID freshClient \<and>
   requestID freshClient < 2 ^ 63 - 1 \<and>
   Initialize freshClient (SendOk, RecvEOF, SendOk) =
     (freshClient\<lparr>requestID := 1,
        transport := (transport freshClient)\<lparr>trace := [Written (initializeRequest 1), NewlineWritten]\<rparr>\<rparr>,
      Some (Wrapf ''failed to receive initialize response'' (Errorf ''MCP server closed connection''))) \<and>
   \<not> IsInitialized freshClient \<and>
   IsInitialized (freshClient\<lparr>requestID := 1,
        transport := (transport freshClient)\<lparr>trace := [Written (initializeRequest 1), NewlineWritten]\<rparr>\<rparr>) \<and>
   snd (ListTools (freshClient\<lparr>requestID := 1,
        transport := (transport freshClient)\<lparr>trace := [Written (initializeRequest 1), NewlineWritten]\<rparr>\<rparr>)
        (SendOk, RecvLine (Doc toolsListReply))) = Inl (Errorf ''client not initialized'')"
proof -
  have a: "\<not> initialized freshClient" by code_simp
  have b: "0 \<le> requestID freshClient" by code_simp
  have c: "requestID freshClient < 2 ^ 63 - 1" by code_simp
  have d: "Initialize freshClient (SendOk, RecvEOF, SendOk) =
     (freshClient\<lparr>requestID := 1,
        transport := (transport freshClient)\<lparr>trace := [Written (initializeRequest 1), NewlineWritten]\<rparr>\<rparr>,
      Some (Wrapf ''failed to receive initialize response'' (Errorf ''MCP server closed connection'')))"
    by code_simp
  have e: "\<not> IsInitialized freshClient" by code_simp
  show ?thesis
    using a b c d e
      IsInitialized_after_failed_Initialize [OF a b c d, of "(SendOk, RecvLine (Doc toolsListReply))"
        lib0 "[]" "[]" "(SendOk, RecvEOF)"]
    by simp
qed

section \<open>Inbound frames\<close>

lemmas decode_simps = findField_def foldName.simps fold_char_def unmarshalStruct_def
  JSONRPCResponse_UnmarshalJSON_def setJSONRPCResponse_def setRPCError_def
  zeroJSONRPCResponse_def zeroRPCError_def

text \<open>
  Claim C4, as the code has it. Decoding a frame checks neither the \<open>jsonrpc\<close> member nor
  that \<open>result\<close> and \<open>error\<close> exclude each other. With an id and an error code in the
  range of \<open>int64\<close>, a frame with \<open>id\<close> and \<open>result\<close> but no \<open>jsonrpc\<close>, a frame with
  any version string, and a frame with both \<open>result\<close> and \<open>error\<close> are returned to the
  session as decoded responses, the last with both fields set. A line that is no JSON text
  and a frame whose \<open>jsonrpc\<close> member is a number fail with a decoding error.
\<close>

theorem frames_are_not_validated:
  assumes "\<not> closed t" and "inInt64 n" and "inInt64 k"
  shows "Receive t (RecvLine (Doc (JObject [(''id'', JInt n), (''result'', res)]))) =
      Inr \<lparr>resp_JSONRPC = [], resp_ID = n, resp_Result = Doc res, resp_Error = None\<rparr> \<and>
    Receive t (RecvLine (Doc (JObject [(''jsonrpc'', JString v), (''id'', JInt n), (''result'', res)]))) =
      Inr \<lparr>resp_JSONRPC = v, resp_ID = n, resp_Result = Doc res, resp_Error = None\<rparr> \<and>
    Receive t (RecvLine (Doc (JObject [(''jsonrpc'', JString v), (''id'', JInt n), (''result'', res),
        (''error'', JObject [(''code'', JInt k), (''message'', JString msg)])]))) =
      Inr \<lparr>resp_JSONRPC = v, resp_ID = n, resp_Result = Doc res,
           resp_Error = Some \<lparr>rpc_Code = k, rpc_Message = msg, rpc_Data = NoBytes\<rparr>\<rparr> \<and>
    Receive t (RecvLine Malformed) =
      Inl (Wrapf ''failed to unmarshal response'' (LibErr SyntaxError)) \<and>
    Receive t (RecvLine (Doc (JObject [(''jsonrpc'', JInt n)]))) =
      Inl (Wrapf ''failed to unmarshal response'' (LibErr UnmarshalTypeError))"
  using assms by (simp add: Receive_def decode_simps)

text \<open>
  Against claim C4 as stated: three frames that the claim wants rejected as protocol
  violations are returned as responses.
\<close>

theorem unvalidated_frames_returned:
  "Receive (transport readyClient) (RecvLine (Doc (JObject [(''id'', JInt 1), (''result'', JString ''ok'')]))) =
      Inr \<lparr>resp_JSONRPC = [], resp_ID = 1, resp_Result = Doc (JString ''ok''), resp_Error = None\<rparr> \<and>
   Receive (transport readyClient) (RecvLine (Doc (JObject [(''jsonrpc'', JString ''1.0''), (''id'', JInt 1), (''result'', JString ''ok'')]))) =
      Inr \<lparr>resp_JSONRPC = ''1.0'', resp_ID = 1, resp_Result = Doc (JString ''ok''), resp_Error = None\<rparr> \<and>
   Receive (transport readyClient) (RecvLine (Doc (JObject [(''jsonrpc'', JString ''2.0''), (''id'', JInt 1), (''result'', JString ''ok''),
        (''error'', JObject [(''code'', JInt 5), (''message'', JString ''bad'')])]))) =
      Inr \<lparr>resp_JSONRPC = ''2.0'', resp_ID = 1, resp_Result = Doc (JString ''ok''),
           resp_Error = Some \<lparr>rpc_Code = 5, rpc_Message = ''bad'', rpc_Data = NoBytes\<rparr>\<rparr>"
  by code_simp

text \<open>
  The theorem at the transport of the example client.
\<close>

theorem frames_are_not_validated_witness:
  "\<not> closed (transport readyClient) \<and> inInt64 7 \<and> inInt64 (- 32602) \<and>
   Receive (transport readyClient) (RecvLine (Doc (JObject [(''id'', JInt 7), (''result'', JNull)]))) =
      Inr \<lparr>resp_JSONRPC = [], resp_ID = 7, resp_Result = Doc JNull, resp_Error = None\<rparr>"
proof -
  have a: "\<not> closed (transport readyClient)" by code_simp
  have b: "inInt64 7" "inInt64 (- 32602)" by (simp_all add: inInt64_def)
  show ?thesis
    using a b frames_are_not_validated [OF a b, of JNull "[]" "[]"] by simp
qed

section \<open>Tool calls through the adapter, and the environment of the child\<close>

lemma Receive_open: "\<not> closed t \<Longrightarrow> \<not> closed t' \<Longrightarrow> Receive t inp = Receive t' inp"
  by (simp add: Receive_def)

lemma CallTool_round_trip:
  assumes "initialized c" and "Receive (transport c) inp = Inr resp"
  shows "snd (CallTool L c name args (SendOk, inp)) =
     (case resp_Error resp of
        Some e \<Rightarrow> Inl (Errorf (''tools/call error: '' @ rpc_Message e))
      | None \<Rightarrow>
          (case unmarshalToolCallResult L (resp_Result resp) of
             Inl err \<Rightarrow> Inl (Wrapf ''failed to unmarshal tools/call result'' (LibErr err))
           | Inr result \<Rightarrow> Inr (GetText result)))"
proof -
  from assms(2) have op: "\<not> closed (transport c)"
    by (auto simp: Receive_def split: if_splits)
  define c1 where "c1 = c\<lparr>requestID := wrap64 (requestID c + 1)\<rparr>"
  define t1 where "t1 = (transport c)\<lparr>trace := trace (transport c) @
      [Written (callToolRequest (requestID c1) name args), NewlineWritten]\<rparr>"
  have s: "Send (transport c1) (callToolRequest (requestID c1) name args) SendOk = (t1, None)"
    using op by (simp add: Send_def c1_def t1_def)
  have r: "Receive t1 inp = Inr resp"
    using assms(2) op by (simp add: Receive_def t1_def)
  show ?thesis
    using assms(1) s r unfolding CallTool_def Let_def c1_def [symmetric]
    by (simp split: option.splits sum.splits)
qed

lemma Execute_snd:
  "snd (Execute L w c args io) =
     (case snd (CallTool L c (tool_Name (wrapper_tool w)) args io) of
        Inl err \<Rightarrow>
          ErrorResult (''MCP tool '' @ tool_Name (wrapper_tool w) @ '' error: '' @ errorString L err)
      | Inr result \<Rightarrow> NewToolResult result)"
  by (simp add: Execute_def split: prod.splits sum.splits)

text \<open>
  Claim C2, as the code has it. When the round trip of a tool call succeeds and the decoded
  result has \<open>isError = true\<close>, \<open>Execute\<close> returns the flattened text of the result, so
  the text of the server is kept, but as a success result: \<open>CallTool\<close> never reads
  \<open>IsError\<close>.
\<close>

theorem isError_result_is_returned_as_success:
  assumes "initialized c" and "Receive (transport c) inp = Inr resp"
    and "resp_Error resp = None"
    and "unmarshalToolCallResult L (resp_Result resp) = Inr result" and "IsError result"
  shows "snd (Execute L w c args (SendOk, inp)) = NewToolResult (GetText result)"
  using CallTool_round_trip [OF assms(1,2), of L "tool_Name (wrapper_tool w)" args] assms(3,4)
  by (simp add: Execute_snd)

text \<open>
  Against claim C2 as stated: a result with \<open>isError = true\<close> comes back as a success
  result.
\<close>

theorem isError_result_not_error_tagged:
  "snd (Execute lib0 readFileWrapper readyClient [] (SendOk, RecvLine (Doc isErrorReply))) =
     NewToolResult ''disk full''"
  by code_simp

text \<open>
  The theorem at the example client and the reply with \<open>isError = true\<close>.
\<close>

theorem isError_result_is_returned_as_success_witness:
  "initialized readyClient \<and>
   Receive (transport readyClient) (RecvLine (Doc isErrorReply)) =
     Inr \<lparr>resp_JSONRPC = ''2.0'', resp_ID = 3,
          resp_Result = Doc (JObject [(''content'', JArray [textBlock ''disk full'']),
                                      (''isError'', JBool True)]),
          resp_Error = None\<rparr> \<and>
   unmarshalToolCallResult lib0
     (Doc (JObject [(''content'', JArray [textBlock ''disk full'']), (''isError'', JBool True)])) =
     Inr \<lparr>Content = [CRaw (textBlock ''disk full'')], IsError = True\<rparr> \<and>
   snd (Execute lib0 readFileWrapper readyClient [] (SendOk, RecvLine (Doc isErrorReply))) =
     NewToolResult (GetText \<lparr>Content = [CRaw (textBlock ''disk full'')], IsError = True\<rparr>)"
proof -
  have a: "initialized readyClient" by code_simp
  have b: "Receive (transport readyClient) (RecvLine (Doc isErrorReply)) =
     Inr \<lparr>resp_JSONRPC = ''2.0'', resp_ID = 3,
          resp_Result = Doc (JObject [(''content'', JArray [textBlock ''disk full'']),
                                      (''isError'', JBool True)]),
          resp_Error = None\<rparr>" by code_simp
  have c: "unmarshalToolCallResult lib0
     (resp_Result \<lparr>resp_JSONRPC = ''2.0'', resp_ID = 3,
          resp_Result = Doc (JObject [(''content'', JArray [textBlock ''disk full'']),
                                      (''isError'', JBool True)]),
          resp_Error = None\<rparr>) =
     Inr \<lparr>Content = [CRaw (textBlock ''disk full'')], IsError = True\<rparr>" by code_simp
  show ?thesis
    using a b c isError_result_is_returned_as_success [OF a b _ c, of readFileWrapper "[]"]
    by simp
qed

text \<open>
  Claim C3 at the reply of scenario D. The adapter's error result carries the message of the
  RPC error and nothing of its data: it contains neither \<open>field\<close> nor \<open>name\<close>.
  \<open>GetError\<close> on the same response renders the message, a colon and the data.
\<close>

theorem rpc_error_data_is_dropped:
  "snd (Execute L readFileWrapper readyClient [] (SendOk, RecvLine (Doc errorReply))) =
     ErrorResult ''MCP tool read_file error: tools/call error: Invalid params'' \<and>
   contains ''MCP tool read_file error: tools/call error: Invalid params'' ''Invalid params'' \<and>
   \<not> contains ''MCP tool read_file error: tools/call error: Invalid params'' ''field'' \<and>
   \<not> contains ''MCP tool read_file error: tools/call error: Invalid params'' ''name'' \<and>
   (\<exists>resp. Receive (transport readyClient) (RecvLine (Doc errorReply)) = Inr resp \<and>
      GetError L resp = Some (''Invalid params: '' @ fmtv L (JObject [(''field'', JString ''name'')])))"
proof -
  have a: "initialized readyClient" by code_simp
  have b: "Receive (transport readyClient) (RecvLine (Doc errorReply)) =
     Inr \<lparr>resp_JSONRPC = ''2.0'', resp_ID = 7, resp_Result = NoBytes,
          resp_Error = Some \<lparr>rpc_Code = - 32602, rpc_Message = ''Invalid params'',
                              rpc_Data = Doc (JObject [(''field'', JString ''name'')])\<rparr>\<rparr>"
    by code_simp
  have c: "tool_Name (wrapper_tool readFileWrapper) = ''read_file''" by code_simp
  have "snd (Execute L readFileWrapper readyClient [] (SendOk, RecvLine (Doc errorReply))) =
     ErrorResult ''MCP tool read_file error: tools/call error: Invalid params''"
    using CallTool_round_trip [OF a b, of L "''read_file''" "[]"]
    by (simp add: Execute_snd c)
  moreover have "contains ''MCP tool read_file error: tools/call error: Invalid params'' ''Invalid params''"
    by code_simp
  moreover have "\<not> contains ''MCP tool read_file error: tools/call error: Invalid params'' ''field''"
    by code_simp
  moreover have "\<not> contains ''MCP tool read_file error: tools/call error: Invalid params'' ''name''"
    by code_simp
  moreover have "fitsInterface (JObject [(''field'', JString ''name'')])"
    by code_simp
  ultimately show ?thesis using b by (simp add: GetError_def)
qed









section \<open>Starting the fleet\<close>







lemma connectServer_fails_iff:
  "isl (connectServer parent serverCfg io) \<longleftrightarrow>
     io_pipes io \<noteq> PipesCreated \<or> \<not> io_spawn io \<or>
     list_ex hasNUL (case cfg_Env serverCfg of None \<Rightarrow> parent | Some e \<Rightarrow> e) \<or>
     (\<exists>c. NewClient
             \<lparr>server_Name = cfg_Name serverCfg, server_Command = cfg_Command serverCfg,
              server_Args = cfg_Args serverCfg, server_Env = cfg_Env serverCfg,
              server_Enabled = cfg_Enabled serverCfg\<rparr> (io_pipes io) = Inr c \<and>
          snd (Initialize (fst (Connect c parent (io_spawn io))) (io_initialize io)) \<noteq> None)"
  by (cases "io_pipes io"; cases "io_spawn io")
     (auto simp: connectServer_def NewClient_def NewSTDIOTransport_def Connect_def
        Start_transport_def split: prod.splits option.splits sum.splits)









end
